theory Spec2Isabelle
  imports Complex_Main "HOL-Library.Char_ord" "HOL-Library.List_Lexorder"
    "HOL-Library.Multiset"
begin

section \<open>Data model of \<open>weather_monitor.py\<close>\<close>

text \<open>
  Python floats are read as the real numbers they denote: comparisons are then exact,
  and arithmetic is the arithmetic of the formulas, without the rounding error of
  IEEE doubles; for the unit conversion the rounded computation is given as well.
  Python's unbounded integers are \<open>int\<close>. Strings are \<open>string\<close>, a list of bytes, which
  for a text in UTF-8 are ordered as Python orders its characters.
\<close>

text \<open>
  The dataclass \<open>WeatherConfig\<close>. \<open>email_config\<close> is an optional dictionary; its
  entries are kept in the order they were written.
\<close>

record WeatherConfig =
  api_key :: string
  interval :: int
  cities :: "string list"
  temp_unit :: string
  high_temp_threshold :: real
  consecutive_alerts :: int
  db_path :: string
  email_config :: "(string \<times> string) list option"

text \<open>
  The dictionary that \<open>get_weather_data\<close> returns and that \<open>store_weather_data\<close>
  writes as one row of the table \<open>weather_data\<close>.
\<close>

record reading =
  city :: string
  temperature :: real
  feels_like :: real
  main_condition :: string
  timestamp :: int

subsection \<open>Unit conversion\<close>

definition kelvin_to_celsius :: "real \<Rightarrow> real" where
  "kelvin_to_celsius kelvin = kelvin - 273.15"

definition kelvin_to_fahrenheit :: "real \<Rightarrow> real" where
  "kelvin_to_fahrenheit kelvin =
     (let celsius = kelvin_to_celsius kelvin in (celsius * 9 / 5) + 32)"

definition convert_temperature :: "WeatherConfig \<Rightarrow> real \<Rightarrow> real" where
  "convert_temperature config kelvin =
     (if temp_unit config = ''celsius'' then kelvin_to_celsius kelvin
      else kelvin_to_fahrenheit kelvin)"

text \<open>
  The same formulas as a float computation carries them out: the literal 273.15 and the
  result of each operation are rounded to a float by \<open>fl\<close>. With the identity for \<open>fl\<close>
  these are the functions above.
\<close>

definition kelvin_to_celsius_rounded :: "(real \<Rightarrow> real) \<Rightarrow> real \<Rightarrow> real" where
  "kelvin_to_celsius_rounded fl kelvin = fl (kelvin - fl 273.15)"

definition kelvin_to_fahrenheit_rounded :: "(real \<Rightarrow> real) \<Rightarrow> real \<Rightarrow> real" where
  "kelvin_to_fahrenheit_rounded fl kelvin =
     (let celsius = kelvin_to_celsius_rounded fl kelvin
      in fl (fl (fl (celsius * 9) / 5) + 32))"

subsection \<open>What lies outside the repository\<close>

text \<open>
  The library functions the monitor calls on values, taken as parameters:
  \<open>format_1f t\<close> is Python's \<open>f"{t:.1f}"\<close>;
  \<open>day_start d\<close> is \<open>int(datetime.combine(d, datetime.min.time()).timestamp())\<close> and
  \<open>day_end d\<close> the same with \<open>datetime.max.time()\<close>, both in the local time zone of the
  host; \<open>strftime d\<close> is \<open>d.strftime('%Y-%m-%d')\<close>; \<open>to_json\<close> is pandas'
  \<open>DataFrame.to_json\<close> on the two selected columns.
  A date is its proleptic Gregorian ordinal (\<open>date.toordinal()\<close>), so subtracting
  \<open>timedelta(days=1)\<close> subtracts one.
\<close>

type_synonym date = int

record platform =
  format_1f :: "real \<Rightarrow> string"
  day_start :: "date \<Rightarrow> int"
  day_end :: "date \<Rightarrow> int"
  strftime :: "date \<Rightarrow> string"
  to_json :: "(real \<times> string) list \<Rightarrow> string"

text \<open>
  The value of \<open>datetime.now()\<close>: \<open>run\<close> reads its date, its hour and its minute;
  the second stands for the finer fields, which it does not read.
\<close>

record datetime =
  date_of :: date
  hour :: nat
  minute :: nat
  second :: nat

text \<open>
  The outcome of the \<open>try\<close> block of \<open>get_weather_data\<close>: either an exception was
  raised by the request, the status check, the JSON decoding, a missing key or the
  conversion (\<open>FetchError\<close> with \<open>str(e)\<close>), or the four values read from the response:
  \<open>data['main']['temp']\<close>, \<open>data['main']['feels_like']\<close>, \<open>data['weather'][0]['main']\<close>
  and \<open>data['dt']\<close>.
\<close>

datatype api_result = FetchError string | Payload real real string int

text \<open>
  The outcome of the \<open>try\<close> block of \<open>send_email_alert\<close>: the message was handed to
  the SMTP server, or an exception was raised (\<open>SmtpError\<close> with \<open>str(e)\<close>).
\<close>

datatype smtp_result = Sent | SmtpError string

subsection \<open>State\<close>

datatype level = INFO | WARNING | ERROR

text \<open>One row of the table \<open>daily_summaries\<close>, which is also the dictionary returned.\<close>

record summary =
  summary_city :: string
  summary_date :: string
  avg_temp :: real
  max_temp :: real
  min_temp :: real
  dominant_condition :: string
  summary_data :: string

text \<open>
  What the monitor owns or writes: the dictionary \<open>alert_counter\<close>, the records passed
  to the logger, the two tables of the database in insertion order, and the messages
  handed to the SMTP server.
\<close>

record monitor =
  alert_counter :: "string \<rightharpoonup> int"
  logger :: "(level \<times> string) list"
  weather_data :: "reading list"
  daily_summaries :: "summary list"
  outbox :: "string list"

definition init :: monitor where
  "init = \<lparr>alert_counter = Map.empty, logger = [], weather_data = [],
            daily_summaries = [], outbox = []\<rparr>"

text \<open>
  A call either returns a value or raises; in both cases the state it has reached is
  kept, since the mutations made before a \<open>raise\<close> stay.
\<close>

datatype py_error = IndexError | KeyError

datatype 'a outcome = Returned 'a monitor | Raised py_error monitor

fun final :: "'a outcome \<Rightarrow> monitor" where
  "final (Returned r st) = st"
| "final (Raised e st) = st"

fun raised :: "'a outcome \<Rightarrow> bool" where
  "raised (Returned r st) = False"
| "raised (Raised e st) = True"

definition log_record :: "level \<Rightarrow> string \<Rightarrow> monitor \<Rightarrow> monitor" where
  "log_record lvl msg st = st\<lparr>logger := logger st @ [(lvl, msg)]\<rparr>"

text \<open>The alerts raised so far: the messages logged at level WARNING.\<close>

definition alerts :: "monitor \<Rightarrow> string list" where
  "alerts st = map snd (filter (\<lambda>e. fst e = WARNING) (logger st))"

subsection \<open>Fetching and storing\<close>

definition get_weather_data ::
  "WeatherConfig \<Rightarrow> string \<Rightarrow> api_result \<Rightarrow> monitor \<Rightarrow> reading option \<times> monitor" where
  "get_weather_data config c response st =
     (case response of
        Payload temp feels main dt \<Rightarrow>
          (Some \<lparr>city = c,
                 temperature = convert_temperature config temp,
                 feels_like = convert_temperature config feels,
                 main_condition = main,
                 timestamp = dt\<rparr>, st)
      | FetchError e \<Rightarrow>
          (None, log_record ERROR (''Error fetching data for '' @ c @ '': '' @ e) st))"

definition store_weather_data :: "reading option \<Rightarrow> monitor \<Rightarrow> monitor" where
  "store_weather_data data st =
     (case data of
        None \<Rightarrow> st
      | Some d \<Rightarrow> st\<lparr>weather_data := weather_data st @ [d]\<rparr>)"

subsection \<open>Alert engine\<close>

text \<open>\<open>bool(self.config.email_config)\<close>: neither \<open>None\<close> nor an empty dictionary.\<close>

definition email_enabled :: "WeatherConfig \<Rightarrow> bool" where
  "email_enabled config =
     (case email_config config of None \<Rightarrow> False | Some d \<Rightarrow> d \<noteq> [])"

definition send_email_alert :: "WeatherConfig \<Rightarrow> smtp_result \<Rightarrow> string \<Rightarrow> monitor \<Rightarrow> monitor" where
  "send_email_alert config smtp message st =
     (if \<not> email_enabled config then st
      else (case smtp of
              Sent \<Rightarrow> st\<lparr>outbox := outbox st @ [message]\<rparr>
            | SmtpError e \<Rightarrow> log_record ERROR (''Failed to send email alert: '' @ e) st))"

definition trigger_alert :: "WeatherConfig \<Rightarrow> smtp_result \<Rightarrow> string \<Rightarrow> monitor \<Rightarrow> monitor" where
  "trigger_alert config smtp message st =
     (let st1 = log_record WARNING (''ALERT: '' @ message) st
      in if email_enabled config then send_email_alert config smtp message st1 else st1)"

text \<open>\<open>d.get(k, default)\<close> on a dictionary.\<close>

definition get_default :: "('k \<rightharpoonup> 'v) \<Rightarrow> 'k \<Rightarrow> 'v \<Rightarrow> 'v" where
  "get_default d k dflt = (case d k of None \<Rightarrow> dflt | Some v \<Rightarrow> v)"

text \<open>\<open>str.upper\<close> on one character, for the ASCII letters a unit name is made of.\<close>

definition upper :: "char \<Rightarrow> char" where
  "upper c = (if CHR ''a'' \<le> c \<and> c \<le> CHR ''z'' then char_of (of_char c - (32::nat)) else c)"

text \<open>The two characters between the temperature and the unit letter, in UTF-8.\<close>

definition degree :: string where
  "degree = [CHR 0xC3, CHR 0x82, CHR 0xC2, CHR 0xB0]"

definition alert_key :: "string \<Rightarrow> string" where
  "alert_key c = c @ ''_high_temp''"

definition check_temperature_alert ::
  "WeatherConfig \<Rightarrow> platform \<Rightarrow> smtp_result \<Rightarrow> reading \<Rightarrow> monitor \<Rightarrow> unit outcome" where
  "check_temperature_alert config pf smtp data st =
     (if temperature data > high_temp_threshold config then
        (let city_key = alert_key (city data);
             st1 = st\<lparr>alert_counter :=
                      (alert_counter st)(city_key \<mapsto> get_default (alert_counter st) city_key 0 + 1)\<rparr>
         in if get_default (alert_counter st1) city_key 0 \<ge> consecutive_alerts config then
              (case temp_unit config of
                 [] \<Rightarrow> Raised IndexError st1
               | u # _ \<Rightarrow>
                   (let st2 = trigger_alert config smtp
                                (''High temperature alert for '' @ city data @ '': ''
                                 @ format_1f pf (temperature data) @ degree @ [upper u]) st1
                    in Returned () (st2\<lparr>alert_counter := (alert_counter st2)(city_key \<mapsto> 0)\<rparr>)))
            else Returned () st1)
      else Returned () (st\<lparr>alert_counter := (alert_counter st)(alert_key (city data) \<mapsto> 0)\<rparr>))"

subsection \<open>Aggregator\<close>

text \<open>
  The data frame that \<open>pd.read_sql_query\<close> returns for the query of
  \<open>calculate_daily_summary\<close>: the columns \<open>temperature\<close> and \<open>main_condition\<close> of the
  rows of \<open>weather_data\<close> whose city is the one given and whose timestamp lies between
  the two bounds, both included, in the order of insertion.
\<close>

definition read_sql_query :: "monitor \<Rightarrow> string \<Rightarrow> int \<Rightarrow> int \<Rightarrow> (real \<times> string) list" where
  "read_sql_query st c start_timestamp end_timestamp =
     map (\<lambda>r. (temperature r, main_condition r))
       (filter (\<lambda>r. city r = c \<and> start_timestamp \<le> timestamp r \<and> timestamp r \<le> end_timestamp)
          (weather_data st))"

text \<open>
  The pandas reductions on a column. \<open>Series.mode\<close> returns the values that occur most
  often, each once, in sorted order; strings are compared as Python compares them,
  character by character, a proper prefix being smaller.
\<close>

definition series_mean :: "real list \<Rightarrow> real" where
  "series_mean xs = sum_list xs / real (length xs)"

definition series_max :: "real list \<Rightarrow> real" where
  "series_max xs = fold max (tl xs) (hd xs)"

definition series_min :: "real list \<Rightarrow> real" where
  "series_min xs = fold min (tl xs) (hd xs)"

definition series_mode :: "string list \<Rightarrow> string list" where
  "series_mode xs =
     (let counts = map (count_list xs) xs;
          top = fold max counts 0
      in sort (remdups (filter (\<lambda>x. count_list xs x = top) xs)))"

definition calculate_daily_summary ::
  "platform \<Rightarrow> string \<Rightarrow> date \<Rightarrow> monitor \<Rightarrow> summary option outcome" where
  "calculate_daily_summary pf c d st =
     (let start_timestamp = day_start pf d;
          end_timestamp = day_end pf d;
          df = read_sql_query st c start_timestamp end_timestamp
      in if df = [] then Returned None st
         else (case series_mode (map snd df) of
                 [] \<Rightarrow> Raised KeyError st
               | dominant # _ \<Rightarrow>
                   (let s = \<lparr>summary_city = c,
                             summary_date = strftime pf d,
                             avg_temp = series_mean (map fst df),
                             max_temp = series_max (map fst df),
                             min_temp = series_min (map fst df),
                             dominant_condition = dominant,
                             summary_data = to_json pf df\<rparr>
                    in Returned (Some s) (st\<lparr>daily_summaries := daily_summaries st @ [s]\<rparr>))))"

subsection \<open>Scheduler loop\<close>

text \<open>
  What one cycle of \<open>run\<close> meets outside the program: for each city of the
  configuration, in order, the outcome of the request and the outcome of the attempt to
  send a mail, should the reading call for one; and the clock read after the cities.
\<close>

record cycle_env =
  world :: "(api_result \<times> smtp_result) list"
  clock :: datetime

text \<open>The first \<open>for\<close> loop of a cycle, over the cities paired with what they meet.\<close>

fun fetch_loop ::
  "WeatherConfig \<Rightarrow> platform \<Rightarrow> (string \<times> api_result \<times> smtp_result) list \<Rightarrow> monitor
     \<Rightarrow> unit outcome" where
  "fetch_loop config pf [] st = Returned () st"
| "fetch_loop config pf ((c, response, smtp) # rest) st =
     (case get_weather_data config c response st of
        (None, st1) \<Rightarrow> fetch_loop config pf rest st1
      | (Some data, st1) \<Rightarrow>
          (case check_temperature_alert config pf smtp data (store_weather_data (Some data) st1) of
             Returned u st2 \<Rightarrow> fetch_loop config pf rest st2
           | Raised e st2 \<Rightarrow> Raised e st2))"

text \<open>The second \<open>for\<close> loop, run at midnight; the summaries returned are dropped.\<close>

fun summary_loop :: "platform \<Rightarrow> string list \<Rightarrow> date \<Rightarrow> monitor \<Rightarrow> unit outcome" where
  "summary_loop pf [] yesterday st = Returned () st"
| "summary_loop pf (c # rest) yesterday st =
     (case calculate_daily_summary pf c yesterday st of
        Returned s st1 \<Rightarrow> summary_loop pf rest yesterday st1
      | Raised e st1 \<Rightarrow> Raised e st1)"

text \<open>One pass through the body of \<open>while True\<close>, up to the call of \<open>time.sleep\<close>.\<close>

definition run_cycle :: "WeatherConfig \<Rightarrow> platform \<Rightarrow> cycle_env \<Rightarrow> monitor \<Rightarrow> unit outcome" where
  "run_cycle config pf env st =
     (case fetch_loop config pf (zip (cities config) (world env)) st of
        Raised e st1 \<Rightarrow> Raised e st1
      | Returned u st1 \<Rightarrow>
          (let current_time = clock env
           in if hour current_time = 0 \<and> minute current_time = 0 then
                (let yesterday = date_of current_time - 1
                 in summary_loop pf (cities config) yesterday st1)
              else Returned () st1))"

text \<open>
  \<open>run\<close> on the first cycles of its unbounded loop, one environment for each: the loop
  itself never ends, and an exception that leaves a cycle ends the run.
\<close>

fun run_cycles :: "WeatherConfig \<Rightarrow> platform \<Rightarrow> cycle_env list \<Rightarrow> monitor \<Rightarrow> unit outcome" where
  "run_cycles config pf [] st = Returned () st"
| "run_cycles config pf (env # envs) st =
     (case run_cycle config pf env st of
        Returned u st1 \<Rightarrow> run_cycles config pf envs st1
      | Raised e st1 \<Rightarrow> Raised e st1)"

definition run :: "WeatherConfig \<Rightarrow> platform \<Rightarrow> cycle_env list \<Rightarrow> monitor \<Rightarrow> unit outcome" where
  "run config pf envs st =
     run_cycles config pf envs (log_record INFO ''Starting weather monitoring system...'' st)"

subsection \<open>The configurations of \<open>config.py\<close> and of the tests\<close>

definition config_py :: WeatherConfig where
  "config_py = \<lparr>api_key = ''API-KEY-HERE'', interval = 300,
     cities = [''Delhi'', ''Mumbai'', ''Chennai'', ''Bangalore'', ''Kolkata'', ''Hyderabad''],
     temp_unit = ''celsius'', high_temp_threshold = 35.0, consecutive_alerts = 2,
     db_path = ''weather_data.db'',
     email_config = Some [(''smtp_server'', ''smtp.gmail.com''), (''username'', ''username''),
       (''password'', ''password''), (''from'', ''sender@gmail.com''),
       (''to'', ''receiver@gmail.com'')]\<rparr>"

definition test_config :: WeatherConfig where
  "test_config = \<lparr>api_key = ''test_key'', interval = 300, cities = [''Delhi'', ''Mumbai''],
     temp_unit = ''celsius'', high_temp_threshold = 35.0, consecutive_alerts = 2,
     db_path = '':memory:'', email_config = None\<rparr>"

text \<open>
  A platform for the examples: days counted in UTC, with 1970-01-01 at ordinal 719163,
  and empty text for the three formats, which no example reads.
\<close>

definition utc :: platform where
  "utc = \<lparr>format_1f = (\<lambda>t. []), day_start = (\<lambda>d. (d - 719163) * 86400),
     day_end = (\<lambda>d. (d - 719163) * 86400 + 86399), strftime = (\<lambda>d. []),
     to_json = (\<lambda>df. [])\<rparr>"

subsection \<open>Calls in sequence\<close>

text \<open>
  \<open>check_temperature_alert\<close> called on one reading after another, as
  \<open>test_alert_system\<close> does; an exception ends the sequence.
\<close>

fun feed ::
  "WeatherConfig \<Rightarrow> platform \<Rightarrow> (reading \<times> smtp_result) list \<Rightarrow> monitor \<Rightarrow> unit outcome" where
  "feed config pf [] st = Returned () st"
| "feed config pf ((data, smtp) # rest) st =
     (case check_temperature_alert config pf smtp data st of
        Returned u st1 \<Rightarrow> feed config pf rest st1
      | Raised e st1 \<Rightarrow> Raised e st1)"

subsection \<open>Notions the statements use\<close>

text \<open>The text that \<open>check_temperature_alert\<close> passes to \<open>trigger_alert\<close>.\<close>

definition alert_message :: "WeatherConfig \<Rightarrow> platform \<Rightarrow> reading \<Rightarrow> string" where
  "alert_message config pf data =
     ''High temperature alert for '' @ city data @ '': ''
       @ format_1f pf (temperature data) @ degree @ [upper (hd (temp_unit config))]"

text \<open>The condition under which a reading makes \<open>check_temperature_alert\<close> raise an alert.\<close>

definition fires :: "WeatherConfig \<Rightarrow> reading \<Rightarrow> monitor \<Rightarrow> bool" where
  "fires config data st \<longleftrightarrow>
     temperature data > high_temp_threshold config
     \<and> consecutive_alerts config \<le> get_default (alert_counter st) (alert_key (city data)) 0 + 1
     \<and> temp_unit config \<noteq> []"

text \<open>The number of occurrences that \<open>series_mode\<close> selects by.\<close>

definition top_count :: "string list \<Rightarrow> nat" where
  "top_count xs = fold max (map (count_list xs) xs) 0"

text \<open>The rows that one call of \<open>calculate_daily_summary\<close> adds to \<open>daily_summaries\<close>.\<close>

definition rows_written :: "platform \<Rightarrow> string \<Rightarrow> date \<Rightarrow> monitor \<Rightarrow> summary list" where
  "rows_written pf c d st =
     (case calculate_daily_summary pf c d st of
        Returned (Some s) st1 \<Rightarrow> [s]
      | _ \<Rightarrow> [])"

text \<open>The state without the log, of which only the alerts are kept.\<close>

definition effects ::
  "monitor \<Rightarrow> (string \<rightharpoonup> int) \<times> reading list \<times> summary list \<times> string list \<times> string list" where
  "effects st = (alert_counter st, weather_data st, daily_summaries st, outbox st, alerts st)"

text \<open>
  The readings that one pass of the loop over the cities obtains: one for each request
  that succeeds, in the order of the requests, as \<open>get_weather_data\<close> builds it, with the
  outcome of the mail server for that city.
\<close>

fun fetched ::
  "WeatherConfig \<Rightarrow> (string \<times> api_result \<times> smtp_result) list \<Rightarrow> (reading \<times> smtp_result) list" where
  "fetched config [] = []"
| "fetched config ((c, FetchError e, smtp) # rest) = fetched config rest"
| "fetched config ((c, Payload temp feels main dt, smtp) # rest) =
     (\<lparr>city = c, temperature = convert_temperature config temp,
       feels_like = convert_temperature config feels,
       main_condition = main, timestamp = dt\<rparr>, smtp) # fetched config rest"

text \<open>The part of the state that \<open>check_temperature_alert\<close> reads and writes.\<close>

definition alerting :: "monitor \<Rightarrow> (string \<rightharpoonup> int) \<times> string list \<times> string list" where
  "alerting st = (alert_counter st, alerts st, outbox st)"

subsection \<open>The data of the tests\<close>

text \<open>
  The reading of \<open>test_alert_system\<close>, and a cooler one for the same city. The tests
  take the timestamp from the clock; here it is the first second of 2024-10-04 in UTC,
  the day with ordinal 739163.
\<close>

definition test_data :: reading where
  "test_data = \<lparr>city = ''Delhi'', temperature = 36.0, feels_like = 38.0,
     main_condition = ''Clear'', timestamp = 1728000000\<rparr>"

definition cool_data :: reading where
  "cool_data = \<lparr>city = ''Delhi'', temperature = 30.0, feels_like = 31.0,
     main_condition = ''Clouds'', timestamp = 1728000300\<rparr>"

definition example_day :: date where
  "example_day = 739163"

text \<open>The store after the three insertions of \<open>test_daily_summary_calculation\<close>.\<close>

definition stored_day :: monitor where
  "stored_day = init\<lparr>weather_data :=
     [\<lparr>city = ''Delhi'', temperature = 25.0, feels_like = 26.0,
        main_condition = ''Clear'', timestamp = 1728000000\<rparr>,
      \<lparr>city = ''Delhi'', temperature = 30.0, feels_like = 32.0,
        main_condition = ''Clear'', timestamp = 1728000300\<rparr>,
      \<lparr>city = ''Delhi'', temperature = 28.0, feels_like = 29.0,
        main_condition = ''Clouds'', timestamp = 1728000600\<rparr>]\<rparr>"

text \<open>A day on which two condition labels occur twice each and a third one once.\<close>

definition tied_day :: monitor where
  "tied_day = init\<lparr>weather_data :=
     [\<lparr>city = ''Delhi'', temperature = 25.0, feels_like = 26.0,
        main_condition = ''Rain'', timestamp = 1728000000\<rparr>,
      \<lparr>city = ''Delhi'', temperature = 30.0, feels_like = 32.0,
        main_condition = ''Clear'', timestamp = 1728000300\<rparr>,
      \<lparr>city = ''Delhi'', temperature = 28.0, feels_like = 29.0,
        main_condition = ''Clouds'', timestamp = 1728000600\<rparr>,
      \<lparr>city = ''Delhi'', temperature = 27.0, feels_like = 28.0,
        main_condition = ''Clear'', timestamp = 1728000900\<rparr>,
      \<lparr>city = ''Delhi'', temperature = 26.0, feels_like = 27.0,
        main_condition = ''Rain'', timestamp = 1728001200\<rparr>]\<rparr>"

text \<open>A monitor that has seen one reading above the threshold for Delhi.\<close>

definition armed :: monitor where
  "armed = init\<lparr>alert_counter := [alert_key ''Delhi'' \<mapsto> 1]\<rparr>"

text \<open>
  A cycle of the test configuration just after midnight of the next day, in which the
  request for Delhi fails and the one for Mumbai reports 310 K.
\<close>

definition failing_cycle :: cycle_env where
  "failing_cycle = \<lparr>world = [(FetchError ''timed out'', Sent),
                              (Payload 310 312 ''Clear'' 1728086400, Sent)],
     clock = \<lparr>date_of = 739164, hour = 0, minute = 0, second = 7\<rparr>\<rparr>"

text \<open>
  A store that holds, beside three readings of Delhi on the example day, the first of
  them in its first second and the last in its last second, readings of Delhi in the
  last second of the day before and on the day after, and readings of Mumbai on the
  example day.
\<close>

definition mixed_store :: monitor where
  "mixed_store = init\<lparr>weather_data :=
     [\<lparr>city = ''Delhi'', temperature = 41.0, feels_like = 43.0,
        main_condition = ''Haze'', timestamp = 1727999999\<rparr>,
      \<lparr>city = ''Delhi'', temperature = 25.0, feels_like = 26.0,
        main_condition = ''Clear'', timestamp = 1728000000\<rparr>,
      \<lparr>city = ''Mumbai'', temperature = 33.0, feels_like = 37.0,
        main_condition = ''Rain'', timestamp = 1728000000\<rparr>,
      \<lparr>city = ''Delhi'', temperature = 30.0, feels_like = 32.0,
        main_condition = ''Clear'', timestamp = 1728043200\<rparr>,
      \<lparr>city = ''Mumbai'', temperature = 19.0, feels_like = 19.0,
        main_condition = ''Rain'', timestamp = 1728043200\<rparr>,
      \<lparr>city = ''Delhi'', temperature = 28.0, feels_like = 29.0,
        main_condition = ''Clouds'', timestamp = 1728086399\<rparr>,
      \<lparr>city = ''Mumbai'', temperature = 31.0, feels_like = 35.0,
        main_condition = ''Rain'', timestamp = 1728086399\<rparr>,
      \<lparr>city = ''Delhi'', temperature = 12.0, feels_like = 11.0,
        main_condition = ''Haze'', timestamp = 1728086400\<rparr>,
      \<lparr>city = ''Delhi'', temperature = 13.0, feels_like = 12.0,
        main_condition = ''Haze'', timestamp = 1728086700\<rparr>]\<rparr>"

text \<open>
  The configuration of \<open>config.py\<close> with three cities, and a cycle in which the request
  for the second of them fails while the two others report 310 K and 309.15 K.
\<close>

definition three_cities :: WeatherConfig where
  "three_cities = config_py\<lparr>cities := [''Delhi'', ''Mumbai'', ''Chennai'']\<rparr>"

definition middle_failure :: cycle_env where
  "middle_failure = \<lparr>world = [(Payload 310 312 ''Clear'' 1728086400, Sent),
                               (FetchError ''timed out'', Sent),
                               (Payload 309.15 311.15 ''Haze'' 1728086402, Sent)],
     clock = \<lparr>date_of = 739164, hour = 0, minute = 0, second = 7\<rparr>\<rparr>"

section \<open>Unit conversion\<close>

lemma convert_temperature_celsius:
  "temp_unit config = ''celsius'' \<Longrightarrow> convert_temperature config kelvin = kelvin - 273.15"
  by (simp add: convert_temperature_def kelvin_to_celsius_def)

lemma convert_temperature_fahrenheit:
  "temp_unit config = ''fahrenheit'' \<Longrightarrow>
     convert_temperature config kelvin = (kelvin - 273.15) * 9 / 5 + 32"
  by (simp add: convert_temperature_def kelvin_to_fahrenheit_def kelvin_to_celsius_def)

lemma rounded_with_identity:
  "kelvin_to_celsius_rounded (\<lambda>x. x) = kelvin_to_celsius"
  "kelvin_to_fahrenheit_rounded (\<lambda>x. x) = kelvin_to_fahrenheit"
  by (simp_all add: kelvin_to_celsius_rounded_def kelvin_to_fahrenheit_rounded_def
      kelvin_to_celsius_def kelvin_to_fahrenheit_def fun_eq_iff)

lemma celsius_rounded_300:
  assumes "\<forall>x. \<bar>fl x - x\<bar> \<le> \<bar>x\<bar> / 2 ^ 53"
  shows "\<bar>kelvin_to_celsius_rounded fl 300 - 26.85\<bar> < 1 / 10 ^ 12"
proof -
  define a where "a = fl 273.15"
  define c where "c = fl (300 - a)"
  have e: "(2::real) ^ 53 = 9007199254740992" by simp
  have h1: "\<bar>a - 273.15\<bar> \<le> \<bar>273.15\<bar> / 9007199254740992"
    using assms [rule_format, of "273.15"] unfolding a_def e by simp
  have h2: "\<bar>c - (300 - a)\<bar> \<le> \<bar>300 - a\<bar> / 9007199254740992"
    using assms [rule_format, of "300 - a"] unfolding c_def e by simp
  have "\<bar>c - 26.85\<bar> < 1 / 10 ^ 12"
    using h1 h2 by (simp add: abs_if split: if_splits)
  then show ?thesis by (simp add: kelvin_to_celsius_rounded_def a_def c_def)
qed

lemma fahrenheit_rounded_300:
  assumes "\<forall>x. \<bar>fl x - x\<bar> \<le> \<bar>x\<bar> / 2 ^ 53"
  shows "\<bar>kelvin_to_fahrenheit_rounded fl 300 - 80.33\<bar> < 1 / 10 ^ 9"
proof -
  define c where "c = kelvin_to_celsius_rounded fl 300"
  define m where "m = fl (c * 9)"
  define q where "q = fl (m / 5)"
  define f where "f = fl (q + 32)"
  have e: "(2::real) ^ 53 = 9007199254740992" by simp
  have h0: "\<bar>c - 26.85\<bar> < 1 / 10 ^ 12"
    unfolding c_def using assms by (rule celsius_rounded_300)
  have h1: "\<bar>m - c * 9\<bar> \<le> \<bar>c * 9\<bar> / 9007199254740992"
    using assms [rule_format, of "c * 9"] unfolding m_def e by simp
  have h2: "\<bar>q - m / 5\<bar> \<le> \<bar>m / 5\<bar> / 9007199254740992"
    using assms [rule_format, of "m / 5"] unfolding q_def e by simp
  have h3: "\<bar>f - (q + 32)\<bar> \<le> \<bar>q + 32\<bar> / 9007199254740992"
    using assms [rule_format, of "q + 32"] unfolding f_def e by simp
  have "\<bar>f - 80.33\<bar> < 1 / 10 ^ 9"
    using h0 h1 h2 h3 by (simp add: abs_if split: if_splits)
  then show ?thesis
    by (simp add: kelvin_to_fahrenheit_rounded_def Let_def c_def m_def q_def f_def)
qed

text \<open>
  Claim C3. \<open>convert_temperature\<close> is a function of the configured unit and the Kelvin
  input alone, and it applies the standard formulas with no rounding step: Celsius is
  Kelvin minus 273.15, Fahrenheit is Celsius times 9/5 plus 32. For the input 300 the
  result is within half a hundredth of 26.85 in Celsius and of 80.33 in Fahrenheit, so
  both agree with these values to two decimal places. The same holds when the
  computation is carried out in floats, for every rounding \<open>fl\<close> whose relative error is
  at most 2 to the power -53, as that of IEEE doubles rounded to nearest is.
\<close>

theorem convert_temperature_standard:
  "(temp_unit config = ''celsius'' \<longrightarrow>
      convert_temperature config kelvin = kelvin - 273.15
      \<and> \<bar>convert_temperature config 300 - 26.85\<bar> < 0.005)
   \<and> (temp_unit config = ''fahrenheit'' \<longrightarrow>
      convert_temperature config kelvin = (kelvin - 273.15) * 9 / 5 + 32
      \<and> \<bar>convert_temperature config 300 - 80.33\<bar> < 0.005)
   \<and> ((\<forall>x. \<bar>fl x - x\<bar> \<le> \<bar>x\<bar> / 2 ^ 53) \<longrightarrow>
        \<bar>kelvin_to_celsius_rounded fl 300 - 26.85\<bar> < 0.005
      \<and> \<bar>kelvin_to_fahrenheit_rounded fl 300 - 80.33\<bar> < 0.005)"
proof -
  have "\<bar>kelvin_to_celsius_rounded fl 300 - 26.85\<bar> < 0.005
      \<and> \<bar>kelvin_to_fahrenheit_rounded fl 300 - 80.33\<bar> < 0.005"
    if "\<forall>x. \<bar>fl x - x\<bar> \<le> \<bar>x\<bar> / 2 ^ 53"
    using celsius_rounded_300 [OF that] fahrenheit_rounded_300 [OF that] by simp
  then show ?thesis
    by (simp add: convert_temperature_celsius convert_temperature_fahrenheit)
qed

theorem convert_temperature_standard_witness:
  "temp_unit test_config = ''celsius''
   \<and> convert_temperature test_config 310 = 310 - 273.15
   \<and> \<bar>convert_temperature test_config 300 - 26.85\<bar> < 0.005
   \<and> temp_unit (test_config\<lparr>temp_unit := ''fahrenheit''\<rparr>) = ''fahrenheit''
   \<and> convert_temperature (test_config\<lparr>temp_unit := ''fahrenheit''\<rparr>) 310
       = (310 - 273.15) * 9 / 5 + 32
   \<and> \<bar>convert_temperature (test_config\<lparr>temp_unit := ''fahrenheit''\<rparr>) 300 - 80.33\<bar> < 0.005
   \<and> \<bar>kelvin_to_celsius_rounded (\<lambda>x. x) 300 - 26.85\<bar> < 0.005
   \<and> \<bar>kelvin_to_fahrenheit_rounded (\<lambda>x. x) 300 - 80.33\<bar> < 0.005"
proof -
  have c: "temp_unit test_config = ''celsius''"
    by (simp add: test_config_def)
  have f: "temp_unit (test_config\<lparr>temp_unit := ''fahrenheit''\<rparr>) = ''fahrenheit''"
    by simp
  have i: "\<forall>x::real. \<bar>(\<lambda>x. x) x - x\<bar> \<le> \<bar>x\<bar> / 2 ^ 53"
    by simp
  from c f i show ?thesis
    using convert_temperature_standard [of test_config 310 "\<lambda>x. x"]
      convert_temperature_standard [of "test_config\<lparr>temp_unit := ''fahrenheit''\<rparr>" 310 "\<lambda>x. x"]
    by blast
qed

section \<open>Alert engine\<close>

subsection \<open>What a call changes\<close>

lemma log_record_fields [simp]:
  "alert_counter (log_record lvl msg st) = alert_counter st"
  "weather_data (log_record lvl msg st) = weather_data st"
  "daily_summaries (log_record lvl msg st) = daily_summaries st"
  "outbox (log_record lvl msg st) = outbox st"
  "logger (log_record lvl msg st) = logger st @ [(lvl, msg)]"
  by (simp_all add: log_record_def)

lemma alerts_log_record:
  "alerts (log_record lvl msg st) = alerts st @ (if lvl = WARNING then [msg] else [])"
  by (simp add: alerts_def log_record_def)

lemma alerts_update_other [simp]:
  "alerts (st\<lparr>alert_counter := ac\<rparr>) = alerts st"
  "alerts (st\<lparr>outbox := ob\<rparr>) = alerts st"
  "alerts (st\<lparr>weather_data := wd\<rparr>) = alerts st"
  "alerts (st\<lparr>daily_summaries := ds\<rparr>) = alerts st"
  by (simp_all add: alerts_def)

lemma send_email_alert_fields [simp]:
  "alert_counter (send_email_alert config smtp message st) = alert_counter st"
  "alerts (send_email_alert config smtp message st) = alerts st"
  "weather_data (send_email_alert config smtp message st) = weather_data st"
  "daily_summaries (send_email_alert config smtp message st) = daily_summaries st"
  by (simp_all add: send_email_alert_def alerts_log_record split: smtp_result.split)

lemma trigger_alert_fields [simp]:
  "alert_counter (trigger_alert config smtp message st) = alert_counter st"
  "alerts (trigger_alert config smtp message st) = alerts st @ [''ALERT: '' @ message]"
  "weather_data (trigger_alert config smtp message st) = weather_data st"
  "daily_summaries (trigger_alert config smtp message st) = daily_summaries st"
  by (simp_all add: trigger_alert_def Let_def alerts_log_record)

lemma get_default_upd [simp]: "get_default (m(k \<mapsto> v)) k d = v"
  by (simp add: get_default_def)

lemma get_default_Some0: "m k = Some 0 \<Longrightarrow> get_default m k 0 = (0::int)"
  by (simp add: get_default_def)

lemma get_default_nonneg:
  "\<forall>k v. m k = Some v \<longrightarrow> 0 \<le> v \<Longrightarrow> 0 \<le> get_default m k (0::int)"
  by (simp add: get_default_def split: option.split)

lemma check_below:
  "\<not> temperature data > high_temp_threshold config \<Longrightarrow>
   check_temperature_alert config pf smtp data st =
     Returned () (st\<lparr>alert_counter := (alert_counter st)(alert_key (city data) \<mapsto> 0)\<rparr>)"
  by (simp add: check_temperature_alert_def)

lemma check_counting:
  "temperature data > high_temp_threshold config \<Longrightarrow>
   get_default (alert_counter st) (alert_key (city data)) 0 + 1 < consecutive_alerts config \<Longrightarrow>
   check_temperature_alert config pf smtp data st =
     Returned () (st\<lparr>alert_counter := (alert_counter st)(alert_key (city data) \<mapsto>
        get_default (alert_counter st) (alert_key (city data)) 0 + 1)\<rparr>)"
  by (simp add: check_temperature_alert_def Let_def get_default_def)

lemma check_firing:
  "temperature data > high_temp_threshold config \<Longrightarrow>
   consecutive_alerts config \<le> get_default (alert_counter st) (alert_key (city data)) 0 + 1 \<Longrightarrow>
   temp_unit config \<noteq> [] \<Longrightarrow>
   check_temperature_alert config pf smtp data st =
     Returned ()
       ((trigger_alert config smtp (alert_message config pf data)
          (st\<lparr>alert_counter := (alert_counter st)(alert_key (city data) \<mapsto>
             get_default (alert_counter st) (alert_key (city data)) 0 + 1)\<rparr>))
        \<lparr>alert_counter := (alert_counter st)(alert_key (city data) \<mapsto> 0)\<rparr>)"
  by (cases "temp_unit config")
     (simp_all add: check_temperature_alert_def Let_def get_default_def alert_message_def)

lemma check_alert_counter:
  "alert_counter (final (check_temperature_alert config pf smtp data st)) =
     (alert_counter st)(alert_key (city data) \<mapsto>
        (if temperature data > high_temp_threshold config \<and> \<not> fires config data st
         then get_default (alert_counter st) (alert_key (city data)) 0 + 1 else 0))"
  by (cases "temp_unit config")
     (simp_all add: check_temperature_alert_def Let_def fires_def)

lemma check_alerts:
  "alerts (final (check_temperature_alert config pf smtp data st)) =
     alerts st @ (if fires config data st
                  then [''ALERT: '' @ alert_message config pf data] else [])"
  by (cases "temp_unit config")
     (simp_all add: check_temperature_alert_def Let_def fires_def alert_message_def)

lemma check_raised:
  "raised (check_temperature_alert config pf smtp data st) \<longleftrightarrow>
     temperature data > high_temp_threshold config
     \<and> consecutive_alerts config \<le> get_default (alert_counter st) (alert_key (city data)) 0 + 1
     \<and> temp_unit config = []"
  by (cases "temp_unit config")
     (simp_all add: check_temperature_alert_def Let_def)

lemma check_weather_data [simp]:
  "weather_data (final (check_temperature_alert config pf smtp data st)) = weather_data st"
  by (cases "temp_unit config") (simp_all add: check_temperature_alert_def Let_def)

lemma check_daily_summaries [simp]:
  "daily_summaries (final (check_temperature_alert config pf smtp data st)) = daily_summaries st"
  by (cases "temp_unit config") (simp_all add: check_temperature_alert_def Let_def)

lemma check_outbox:
  "outbox (final (check_temperature_alert config pf smtp data st)) =
     outbox st @ (if fires config data st \<and> email_enabled config \<and> smtp = Sent
                  then [alert_message config pf data] else [])"
  by (cases "temp_unit config")
     (simp_all add: check_temperature_alert_def Let_def fires_def alert_message_def
        trigger_alert_def send_email_alert_def split: smtp_result.split)

lemma check_logger_fired:
  assumes "fires config data st"
  shows "logger (final (check_temperature_alert config pf smtp data st)) =
     logger st @ (WARNING, ''ALERT: '' @ alert_message config pf data)
       # (case smtp of
            SmtpError e \<Rightarrow> if email_enabled config
                           then [(ERROR, ''Failed to send email alert: '' @ e)] else []
          | Sent \<Rightarrow> [])"
  using assms
  by (cases "temp_unit config")
     (simp_all add: check_temperature_alert_def Let_def fires_def alert_message_def
        trigger_alert_def send_email_alert_def split: smtp_result.split)

lemma check_logger_grows:
  "set (logger st) \<subseteq> set (logger (final (check_temperature_alert config pf smtp data st)))"
  by (cases "temp_unit config")
     (auto simp add: check_temperature_alert_def Let_def trigger_alert_def send_email_alert_def
        split: smtp_result.split)

subsection \<open>Hysteresis\<close>

lemma step_cool:
  assumes "temperature cool \<le> high_temp_threshold config" "city cool = c"
  shows "\<exists>st'. check_temperature_alert config pf smtp cool st = Returned () st'
           \<and> alerts st' = alerts st \<and> alert_counter st' (alert_key c) = Some 0"
  using assms check_below [where data = cool and config = config and st = st] by simp

lemma step_first:
  assumes "consecutive_alerts config = 2" "temperature hot > high_temp_threshold config"
    "city hot = c" "get_default (alert_counter st) (alert_key c) 0 = 0"
  shows "\<exists>st'. check_temperature_alert config pf smtp hot st = Returned () st'
           \<and> alerts st' = alerts st \<and> alert_counter st' (alert_key c) = Some 1"
  using assms check_counting [where data = hot and config = config and st = st] by simp

lemma step_second:
  assumes "consecutive_alerts config = 2" "temperature hot > high_temp_threshold config"
    "city hot = c" "alert_counter st (alert_key c) = Some 1" "temp_unit config \<noteq> []"
  shows "\<exists>st' m. check_temperature_alert config pf smtp hot st = Returned () st'
           \<and> alerts st' = alerts st @ [m] \<and> alert_counter st' (alert_key c) = Some 0"
proof -
  have "get_default (alert_counter st) (alert_key (city hot)) 0 = 1"
    using assms by (simp add: get_default_def)
  then show ?thesis
    using assms check_firing [where data = hot and config = config and st = st] by simp
qed

text \<open>
  Claim C1. With \<open>consecutive_alerts = 2\<close>, a unit name that is not empty, a reading
  \<open>hot\<close> above the threshold and a reading \<open>cool\<close> at or below it, both for the city
  \<open>c\<close>, and a counter for \<open>c\<close> that is absent or zero: the first \<open>hot\<close> reading raises
  no alert and leaves the counter at 1; the second raises exactly one alert and resets
  the counter to 0; a \<open>cool\<close> reading then raises none and leaves the counter at 0; the
  next \<open>hot\<close> reading raises none and counts 1, and only the one after it raises the
  next alert. Likewise a \<open>cool\<close> reading straight after the first \<open>hot\<close> one clears the
  progress: the next \<open>hot\<close> reading raises no alert, the one after it does. Every call
  returns, whatever the outcome of sending a mail.
\<close>

theorem hysteresis_two:
  assumes two: "consecutive_alerts config = 2"
    and hot: "temperature hot > high_temp_threshold config" "city hot = c"
    and cool: "temperature cool \<le> high_temp_threshold config" "city cool = c"
    and unit: "temp_unit config \<noteq> []"
    and fresh: "get_default (alert_counter st) (alert_key c) 0 = 0"
  shows "\<exists>st1 st2 st3 st4 st5 m m' t2 t3 t4 m''.
      check_temperature_alert config pf s1 hot st = Returned () st1
    \<and> alerts st1 = alerts st \<and> alert_counter st1 (alert_key c) = Some 1
    \<and> check_temperature_alert config pf s2 hot st1 = Returned () st2
    \<and> alerts st2 = alerts st @ [m] \<and> alert_counter st2 (alert_key c) = Some 0
    \<and> check_temperature_alert config pf s3 cool st2 = Returned () st3
    \<and> alerts st3 = alerts st2 \<and> alert_counter st3 (alert_key c) = Some 0
    \<and> check_temperature_alert config pf s4 hot st3 = Returned () st4
    \<and> alerts st4 = alerts st3 \<and> alert_counter st4 (alert_key c) = Some 1
    \<and> check_temperature_alert config pf s5 hot st4 = Returned () st5
    \<and> alerts st5 = alerts st4 @ [m'] \<and> alert_counter st5 (alert_key c) = Some 0
    \<and> check_temperature_alert config pf s2 cool st1 = Returned () t2
    \<and> alerts t2 = alerts st \<and> alert_counter t2 (alert_key c) = Some 0
    \<and> check_temperature_alert config pf s3 hot t2 = Returned () t3
    \<and> alerts t3 = alerts st \<and> alert_counter t3 (alert_key c) = Some 1
    \<and> check_temperature_alert config pf s4 hot t3 = Returned () t4
    \<and> alerts t4 = alerts st @ [m''] \<and> alert_counter t4 (alert_key c) = Some 0"
proof -
  obtain st1 where 1: "check_temperature_alert config pf s1 hot st = Returned () st1"
    "alerts st1 = alerts st" "alert_counter st1 (alert_key c) = Some 1"
    using step_first [OF two hot fresh] by blast
  obtain st2 m where 2: "check_temperature_alert config pf s2 hot st1 = Returned () st2"
    "alerts st2 = alerts st1 @ [m]" "alert_counter st2 (alert_key c) = Some 0"
    using step_second [OF two hot 1(3) unit] by blast
  obtain st3 where 3: "check_temperature_alert config pf s3 cool st2 = Returned () st3"
    "alerts st3 = alerts st2" "alert_counter st3 (alert_key c) = Some 0"
    using step_cool [OF cool] by blast
  obtain st4 where 4: "check_temperature_alert config pf s4 hot st3 = Returned () st4"
    "alerts st4 = alerts st3" "alert_counter st4 (alert_key c) = Some 1"
    using step_first [OF two hot] get_default_Some0 [of "alert_counter st3" "alert_key c"] 3(3)
    by blast
  obtain st5 m' where 5: "check_temperature_alert config pf s5 hot st4 = Returned () st5"
    "alerts st5 = alerts st4 @ [m']" "alert_counter st5 (alert_key c) = Some 0"
    using step_second [OF two hot 4(3) unit] by blast
  obtain t2 where 6: "check_temperature_alert config pf s2 cool st1 = Returned () t2"
    "alerts t2 = alerts st1" "alert_counter t2 (alert_key c) = Some 0"
    using step_cool [OF cool] by blast
  obtain t3 where 7: "check_temperature_alert config pf s3 hot t2 = Returned () t3"
    "alerts t3 = alerts t2" "alert_counter t3 (alert_key c) = Some 1"
    using step_first [OF two hot] get_default_Some0 [of "alert_counter t2" "alert_key c"] 6(3)
    by blast
  obtain t4 m'' where 8: "check_temperature_alert config pf s4 hot t3 = Returned () t4"
    "alerts t4 = alerts t3 @ [m'']" "alert_counter t4 (alert_key c) = Some 0"
    using step_second [OF two hot 7(3) unit] by blast
  have a: "alerts st2 = alerts st @ [m]" using 1(2) 2(2) by simp
  have b: "alerts t2 = alerts st" "alerts t3 = alerts st" "alerts t4 = alerts st @ [m'']"
    using 1(2) 6(2) 7(2) 8(2) by simp_all
  from 1 2(1,3) a 3 4 5 6(1,3) b 7(1,3) 8(1,3) show ?thesis by blast
qed

theorem hysteresis_two_witness:
  "consecutive_alerts test_config = 2
   \<and> temperature test_data > high_temp_threshold test_config
   \<and> temperature cool_data \<le> high_temp_threshold test_config
   \<and> city test_data = ''Delhi'' \<and> city cool_data = ''Delhi''
   \<and> temp_unit test_config \<noteq> []
   \<and> get_default (alert_counter init) (alert_key ''Delhi'') 0 = 0
   \<and> (\<exists>st1 st2 m.
         check_temperature_alert test_config utc Sent test_data init = Returned () st1
       \<and> alerts st1 = alerts init \<and> alert_counter st1 (alert_key ''Delhi'') = Some 1
       \<and> check_temperature_alert test_config utc Sent test_data st1 = Returned () st2
       \<and> alerts st2 = alerts init @ [m] \<and> alert_counter st2 (alert_key ''Delhi'') = Some 0)"
proof -
  have two: "consecutive_alerts test_config = 2"
    and unit: "temp_unit test_config \<noteq> []"
    and hot: "temperature test_data > high_temp_threshold test_config" "city test_data = ''Delhi''"
    and cool: "temperature cool_data \<le> high_temp_threshold test_config" "city cool_data = ''Delhi''"
    and fresh: "get_default (alert_counter init) (alert_key ''Delhi'') 0 = 0"
    by (simp_all add: test_config_def test_data_def cool_data_def init_def get_default_def)
  show ?thesis
    using two unit hot cool fresh
      hysteresis_two [OF two hot cool unit fresh, of utc Sent Sent Sent Sent Sent]
    by blast
qed

subsection \<open>The counters\<close>

lemma check_nonneg:
  assumes "\<forall>k v. alert_counter st k = Some v \<longrightarrow> 0 \<le> v"
  shows "\<forall>k v. alert_counter (final (check_temperature_alert config pf smtp data st)) k = Some v
           \<longrightarrow> 0 \<le> v"
  using get_default_nonneg [OF assms, of "alert_key (city data)"] assms
  by (auto simp add: check_alert_counter)

lemma feed_nonneg:
  "\<forall>k v. alert_counter st k = Some v \<longrightarrow> 0 \<le> v \<Longrightarrow>
   \<forall>k v. alert_counter (final (feed config pf rs st)) k = Some v \<longrightarrow> 0 \<le> v"
proof (induction rs arbitrary: st)
  case Nil
  then show ?case by simp
next
  case (Cons r rs)
  obtain data smtp where r: "r = (data, smtp)" by (cases r)
  show ?case
  proof (cases "check_temperature_alert config pf smtp data st")
    case (Returned u st1)
    then have "final (check_temperature_alert config pf smtp data st) = st1" by simp
    then have "\<forall>k v. alert_counter st1 k = Some v \<longrightarrow> 0 \<le> v"
      using check_nonneg [OF Cons.prems, of config pf smtp data] by simp
    then show ?thesis using Cons.IH [of st1] Returned r by simp
  next
    case (Raised e st1)
    then have "final (check_temperature_alert config pf smtp data st) = st1" by simp
    then have "\<forall>k v. alert_counter st1 k = Some v \<longrightarrow> 0 \<le> v"
      using check_nonneg [OF Cons.prems, of config pf smtp data] by simp
    then show ?thesis using Raised r by simp
  qed
qed

lemma check_zero_iff:
  assumes "\<forall>k v. alert_counter st k = Some v \<longrightarrow> 0 \<le> v"
  shows "alert_counter (final (check_temperature_alert config pf smtp data st))
           (alert_key (city data)) = Some 0
         \<longleftrightarrow> temperature data \<le> high_temp_threshold config
             \<or> alerts (final (check_temperature_alert config pf smtp data st)) \<noteq> alerts st"
  using get_default_nonneg [OF assms, of "alert_key (city data)"]
  by (auto simp add: check_alert_counter check_alerts)

text \<open>
  Claim C2. After any sequence of readings fed to \<open>check_temperature_alert\<close> from the
  empty \<open>alert_counter\<close>, every count is non-negative. A call on a state whose counts are
  non-negative keeps them so; it leaves the count of the reading's city at zero exactly
  when the reading is at or below the threshold or the call has raised an alert; and it
  changes the count of no other key.
\<close>

theorem alert_counter_invariant:
  "(\<forall>k v. alert_counter (final (feed config pf rs init)) k = Some v \<longrightarrow> 0 \<le> v)
   \<and> ((\<forall>k v. alert_counter st k = Some v \<longrightarrow> 0 \<le> v) \<longrightarrow>
        (\<forall>k v. alert_counter (final (check_temperature_alert config pf smtp data st)) k = Some v
           \<longrightarrow> 0 \<le> v)
      \<and> (alert_counter (final (check_temperature_alert config pf smtp data st))
            (alert_key (city data)) = Some 0
          \<longleftrightarrow> temperature data \<le> high_temp_threshold config
              \<or> alerts (final (check_temperature_alert config pf smtp data st)) \<noteq> alerts st)
      \<and> (\<forall>k. k \<noteq> alert_key (city data) \<longrightarrow>
            alert_counter (final (check_temperature_alert config pf smtp data st)) k
              = alert_counter st k))"
proof -
  have "\<forall>k v. alert_counter init k = Some v \<longrightarrow> 0 \<le> v"
    by (simp add: init_def)
  then have a: "\<forall>k v. alert_counter (final (feed config pf rs init)) k = Some v \<longrightarrow> 0 \<le> v"
    by (rule feed_nonneg)
  have c: "\<forall>k. k \<noteq> alert_key (city data) \<longrightarrow>
            alert_counter (final (check_temperature_alert config pf smtp data st)) k
              = alert_counter st k"
    by (simp add: check_alert_counter)
  show ?thesis
    using a c check_nonneg [of st config pf smtp data] check_zero_iff [of st config pf smtp data]
    by blast
qed

theorem alert_counter_invariant_witness:
  "alert_counter armed (alert_key ''Delhi'') = Some 1
   \<and> temperature cool_data \<le> high_temp_threshold test_config
   \<and> alert_counter (final (check_temperature_alert test_config utc Sent cool_data armed))
        (alert_key ''Delhi'') = Some 0
   \<and> alert_counter (final (check_temperature_alert test_config utc Sent cool_data armed))
        (alert_key ''Mumbai'') = alert_counter armed (alert_key ''Mumbai'')
   \<and> alerts (final (check_temperature_alert test_config utc Sent test_data init)) = alerts init
   \<and> alert_counter (final (check_temperature_alert test_config utc Sent test_data init))
        (alert_key ''Delhi'') \<noteq> Some 0"
proof -
  have n: "\<forall>k v. alert_counter armed k = Some v \<longrightarrow> 0 \<le> v"
    by (simp add: armed_def init_def)
  have n0: "\<forall>k v. alert_counter init k = Some v \<longrightarrow> 0 \<le> v"
    by (simp add: init_def)
  have one: "alert_counter armed (alert_key ''Delhi'') = Some 1"
    by (simp add: armed_def init_def)
  have cool: "temperature cool_data \<le> high_temp_threshold test_config"
    and c: "city cool_data = ''Delhi''" "city test_data = ''Delhi''"
    and hot: "\<not> temperature test_data \<le> high_temp_threshold test_config"
    by (simp_all add: cool_data_def test_data_def test_config_def)
  have other: "alert_key ''Mumbai'' \<noteq> alert_key (city cool_data)"
    by (simp add: alert_key_def cool_data_def)
  have quiet: "alerts (final (check_temperature_alert test_config utc Sent test_data init))
                 = alerts init"
    by (simp add: check_alerts fires_def test_config_def test_data_def init_def get_default_def)
  show ?thesis
    using n n0 one cool c hot other quiet
      alert_counter_invariant [of test_config utc "[]" armed Sent cool_data]
      alert_counter_invariant [of test_config utc "[]" init Sent test_data]
    by metis
qed

subsection \<open>Failure of the alert sink\<close>

text \<open>
  Claim C8. A call of \<open>check_temperature_alert\<close> cannot raise unless the unit name is
  empty, the one thing that building the alert text needs. When a call raises an alert,
  it returns with the count of the reading's city at 0, and the alert and the
  counters are the same whatever the outcome of sending the mail. When mail is enabled
  and sending fails, the failure is the last record of the log, at level ERROR, and
  nothing is added to the messages sent.
\<close>

theorem alert_fired_whatever_the_sink:
  "(temp_unit config \<noteq> [] \<longrightarrow> \<not> raised (check_temperature_alert config pf smtp data st))
   \<and> (alerts (final (check_temperature_alert config pf smtp data st)) \<noteq> alerts st \<longrightarrow>
        \<not> raised (check_temperature_alert config pf smtp data st)
      \<and> alert_counter (final (check_temperature_alert config pf smtp data st))
           (alert_key (city data)) = Some 0
      \<and> alerts (final (check_temperature_alert config pf smtp' data st)) \<noteq> alerts st
      \<and> alert_counter (final (check_temperature_alert config pf smtp' data st))
           = alert_counter (final (check_temperature_alert config pf smtp data st))
      \<and> (email_enabled config \<and> smtp = SmtpError e \<longrightarrow>
            last (logger (final (check_temperature_alert config pf smtp data st)))
              = (ERROR, ''Failed to send email alert: '' @ e)
          \<and> outbox (final (check_temperature_alert config pf smtp data st)) = outbox st))"
proof -
  have r: "temp_unit config \<noteq> [] \<longrightarrow> \<not> raised (check_temperature_alert config pf smtp data st)"
    by (simp add: check_raised)
  have f: "fires config data st"
    if "alerts (final (check_temperature_alert config pf smtp data st)) \<noteq> alerts st"
    using that by (simp add: check_alerts split: if_splits)
  have "\<not> raised (check_temperature_alert config pf smtp data st)"
      "alert_counter (final (check_temperature_alert config pf smtp data st))
           (alert_key (city data)) = Some 0"
      "alerts (final (check_temperature_alert config pf smtp' data st)) \<noteq> alerts st"
      "alert_counter (final (check_temperature_alert config pf smtp' data st))
           = alert_counter (final (check_temperature_alert config pf smtp data st))"
      "email_enabled config \<and> smtp = SmtpError e \<longrightarrow>
            last (logger (final (check_temperature_alert config pf smtp data st)))
              = (ERROR, ''Failed to send email alert: '' @ e)
          \<and> outbox (final (check_temperature_alert config pf smtp data st)) = outbox st"
    if "fires config data st"
    using that
    by (simp_all add: check_raised check_alert_counter check_alerts check_logger_fired
          check_outbox) (simp add: fires_def)
  with r f show ?thesis by blast
qed

theorem alert_fired_whatever_the_sink_witness:
  "temp_unit config_py \<noteq> [] \<and> email_enabled config_py
   \<and> alerts (final (check_temperature_alert config_py utc (SmtpError ''timed out'') test_data
                 armed)) \<noteq> alerts armed
   \<and> \<not> raised (check_temperature_alert config_py utc (SmtpError ''timed out'') test_data armed)
   \<and> alert_counter (final (check_temperature_alert config_py utc (SmtpError ''timed out'')
                 test_data armed)) (alert_key (city test_data)) = Some 0
   \<and> alert_counter (final (check_temperature_alert config_py utc Sent test_data armed))
        = alert_counter (final (check_temperature_alert config_py utc (SmtpError ''timed out'')
                 test_data armed))
   \<and> last (logger (final (check_temperature_alert config_py utc (SmtpError ''timed out'')
                 test_data armed))) = (ERROR, ''Failed to send email alert: timed out'')
   \<and> outbox (final (check_temperature_alert config_py utc (SmtpError ''timed out'') test_data
                 armed)) = outbox armed"
proof -
  have u: "temp_unit config_py \<noteq> []" and en: "email_enabled config_py"
    by (simp_all add: config_py_def email_enabled_def)
  have "fires config_py test_data armed"
    by (simp add: fires_def config_py_def test_data_def armed_def init_def)
  then have a: "alerts (final (check_temperature_alert config_py utc (SmtpError ''timed out'')
                   test_data armed)) \<noteq> alerts armed"
    by (simp add: check_alerts)
  show ?thesis
    using u en a
      alert_fired_whatever_the_sink
        [of config_py utc "SmtpError ''timed out''" test_data armed Sent "''timed out''"]
    by simp
qed

section \<open>Aggregator\<close>

subsection \<open>The reductions\<close>

lemma fold_max_Max: "fold max xs (a::'a::linorder) = Max (set (a # xs))"
  using Max.set_eq_fold [of a xs] by simp

lemma fold_min_Min: "fold min xs (a::'a::linorder) = Min (set (a # xs))"
  using Min.set_eq_fold [of a xs] by simp

lemma series_max_Max: "xs \<noteq> [] \<Longrightarrow> series_max xs = Max (set xs)"
  by (cases xs) (simp_all add: series_max_def fold_max_Max)

lemma series_min_Min: "xs \<noteq> [] \<Longrightarrow> series_min xs = Min (set xs)"
  by (cases xs) (simp_all add: series_min_def fold_min_Min)

lemma top_count_Max: "top_count xs = Max (insert 0 (count_list xs ` set xs))"
  by (simp add: top_count_def fold_max_Max)

lemma count_le_top: "count_list xs x \<le> top_count xs"
proof (cases "x \<in> set xs")
  case True
  then show ?thesis by (simp add: top_count_Max)
next
  case False
  then show ?thesis by (simp add: count_list_0_iff)
qed

lemma top_count_attained:
  assumes "xs \<noteq> []"
  shows "\<exists>x\<in>set xs. count_list xs x = top_count xs"
proof -
  have "Max (insert 0 (count_list xs ` set xs)) \<in> insert 0 (count_list xs ` set xs)"
    by (rule Max_in) simp_all
  moreover have "top_count xs > 0"
  proof -
    obtain a where "a \<in> set xs" using assms by (cases xs) auto
    then have "0 < count_list xs a" using count_list_0_iff [of xs a] by simp
    then show ?thesis using count_le_top [of xs a] by linarith
  qed
  ultimately show ?thesis by (auto simp add: top_count_Max)
qed

lemma top_iff_most_frequent:
  assumes "xs \<noteq> []"
  shows "count_list xs x = top_count xs \<longleftrightarrow> (\<forall>y. count_list xs y \<le> count_list xs x)"
proof
  assume "count_list xs x = top_count xs"
  then show "\<forall>y. count_list xs y \<le> count_list xs x" by (simp add: count_le_top)
next
  obtain m where m: "count_list xs m = top_count xs"
    using top_count_attained [OF assms] by blast
  assume "\<forall>y. count_list xs y \<le> count_list xs x"
  then have "top_count xs \<le> count_list xs x" using m by metis
  then show "count_list xs x = top_count xs" using count_le_top [of xs x] by simp
qed

lemma set_series_mode:
  "set (series_mode xs) = {x \<in> set xs. count_list xs x = top_count xs}"
  by (auto simp add: series_mode_def top_count_def Let_def)

lemma series_mode_sorted: "sorted (series_mode xs)"
  by (simp add: series_mode_def Let_def)

lemma series_mode_nonempty:
  assumes "xs \<noteq> []"
  shows "series_mode xs \<noteq> []"
proof -
  obtain x where "x \<in> set xs" "count_list xs x = top_count xs"
    using top_count_attained [OF assms] by blast
  then have "x \<in> set (series_mode xs)" by (simp add: set_series_mode)
  then show ?thesis by auto
qed

lemma series_mode_first:
  assumes "series_mode xs = m # ms"
  shows "m \<in> set xs" "count_list xs m = top_count xs"
    "\<forall>l \<in> set xs. count_list xs l = top_count xs \<longrightarrow> m \<le> l"
proof -
  have "m \<in> set (series_mode xs)" using assms by simp
  then show "m \<in> set xs" "count_list xs m = top_count xs"
    by (simp_all add: set_series_mode)
  have "\<forall>l \<in> set (series_mode xs). m \<le> l"
    using series_mode_sorted [of xs] assms by auto
  then show "\<forall>l \<in> set xs. count_list xs l = top_count xs \<longrightarrow> m \<le> l"
    by (simp add: set_series_mode)
qed

lemma string_le_lexord:
  "(xs :: string) \<le> ys \<longleftrightarrow>
     xs = ys \<or> (xs, ys) \<in> lexord {(a, b). of_char a < (of_char b :: nat)}"
proof -
  have "{(u :: char, v). u < v} = {(a, b). of_char a < (of_char b :: nat)}"
    by (simp add: less_char_def)
  then show ?thesis by (auto simp add: list_le_def list_less_def)
qed

subsection \<open>One call\<close>

lemma calculate_nonempty:
  assumes "read_sql_query st c (day_start pf d) (day_end pf d) = df" "df \<noteq> []"
  shows "\<exists>s. calculate_daily_summary pf c d st
               = Returned (Some s) (st\<lparr>daily_summaries := daily_summaries st @ [s]\<rparr>)
           \<and> summary_city s = c \<and> summary_date s = strftime pf d
           \<and> avg_temp s = series_mean (map fst df)
           \<and> max_temp s = series_max (map fst df)
           \<and> min_temp s = series_min (map fst df)
           \<and> series_mode (map snd df) = dominant_condition s # tl (series_mode (map snd df))
           \<and> summary_data s = to_json pf df"
proof -
  have "series_mode (map snd df) \<noteq> []"
    using assms(2) by (simp add: series_mode_nonempty)
  then obtain m ms where "series_mode (map snd df) = m # ms"
    by (cases "series_mode (map snd df)") auto
  then show ?thesis
    using assms by (simp add: calculate_daily_summary_def Let_def)
qed

lemma calculate_empty:
  assumes "read_sql_query st c (day_start pf d) (day_end pf d) = []"
  shows "calculate_daily_summary pf c d st = Returned None st"
  using assms by (simp add: calculate_daily_summary_def)

lemma example_mean:
  assumes "mset xs = {#25, 30, 28 :: real#}"
  shows "series_mean xs = 83 / 3"
proof -
  have "sum_list xs = sum_mset (mset xs)" by (simp add: sum_mset_sum_list)
  moreover have "length xs = size (mset xs)" by simp
  ultimately show ?thesis unfolding series_mean_def assms by simp
qed

lemma example_max_min:
  assumes "mset xs = {#25, 30, 28 :: real#}"
  shows "series_max xs = 30" "series_min xs = 25"
proof -
  have "set xs = set_mset (mset xs)" by simp
  then have s: "set xs = {25, 30, 28}" unfolding assms by simp
  have "length xs = size (mset xs)" by simp
  then have "length xs = 3" unfolding assms by simp
  then have "xs \<noteq> []" by auto
  then show "series_max xs = 30" "series_min xs = 25"
    by (simp_all add: series_max_Max series_min_Min s)
qed

lemma example_mode:
  assumes "mset xs = {#''Clear'', ''Clear'', ''Clouds''#}"
  shows "series_mode xs = ''Clear'' # tl (series_mode xs)"
proof -
  have "set xs = set_mset (mset xs)" by simp
  then have s: "set xs = {''Clear'', ''Clouds''}" unfolding assms by simp
  have "count_list xs x = count (mset xs) x" for x by (simp add: count_mset)
  then have c: "count_list xs x = count {#''Clear'', ''Clear'', ''Clouds''#} x" for x
    unfolding assms .
  have c1: "count_list xs ''Clear'' = 2" unfolding c by simp
  have c2: "count_list xs ''Clouds'' = 1" unfolding c by simp
  have ne: "xs \<noteq> []" using c1 by (cases xs) simp_all
  have t: "top_count xs = 2"
    unfolding top_count_Max s by (simp add: c1 c2)
  have "{x \<in> set xs. count_list xs x = top_count xs} = {''Clear''}"
    unfolding s t using c1 c2 by auto
  then have m: "set (series_mode xs) = {''Clear''}" by (simp add: set_series_mode)
  then obtain y ys where y: "series_mode xs = y # ys"
    by (cases "series_mode xs") auto
  then have "y = ''Clear''" using m by auto
  then show ?thesis using y by simp
qed

text \<open>
  Claim C4. Take the readings stored for the city whose timestamp lies between the first
  and the last second of the day, both included. When there is at least one,
  \<open>calculate_daily_summary\<close> returns a summary for that city and date and appends it to
  the store; its average is the sum of the temperatures of these readings divided by
  their number, its maximum and minimum are the largest and the smallest of them, and
  its dominant condition is a label that occurs among these readings at least as often
  as any other. Readings of other cities and of other days play no part. When the
  temperatures of these readings are 25, 30 and 28 and their conditions are Clear, Clear
  and Clouds, in any order, the average is within 0.01 of 27.67, the maximum is 30, the
  minimum is 25 and the dominant condition is Clear.
\<close>

theorem daily_summary_statistics:
  assumes "rows = filter (\<lambda>r. city r = c \<and> day_start pf d \<le> timestamp r
                              \<and> timestamp r \<le> day_end pf d) (weather_data st)"
    and "rows \<noteq> []"
  shows "\<exists>s. calculate_daily_summary pf c d st
                = Returned (Some s) (st\<lparr>daily_summaries := daily_summaries st @ [s]\<rparr>)
     \<and> summary_city s = c \<and> summary_date s = strftime pf d
     \<and> avg_temp s = sum_list (map temperature rows) / real (length rows)
     \<and> max_temp s = Max (temperature ` set rows)
     \<and> min_temp s = Min (temperature ` set rows)
     \<and> dominant_condition s \<in> main_condition ` set rows
     \<and> (\<forall>l. count_list (map main_condition rows) l
              \<le> count_list (map main_condition rows) (dominant_condition s))
     \<and> (mset (map temperature rows) = {#25, 30, 28#}
          \<and> mset (map main_condition rows) = {#''Clear'', ''Clear'', ''Clouds''#} \<longrightarrow>
            \<bar>avg_temp s - 27.67\<bar> \<le> 0.01 \<and> max_temp s = 30 \<and> min_temp s = 25
          \<and> dominant_condition s = ''Clear'')"
proof -
  define df where "df = map (\<lambda>r. (temperature r, main_condition r)) rows"
  have q: "read_sql_query st c (day_start pf d) (day_end pf d) = df"
    by (simp add: read_sql_query_def df_def assms(1))
  have dfne: "df \<noteq> []" using assms(2) by (simp add: df_def)
  have t: "map fst df = map temperature rows" and l: "map snd df = map main_condition rows"
    by (simp_all add: df_def comp_def)
  obtain s where s: "calculate_daily_summary pf c d st
               = Returned (Some s) (st\<lparr>daily_summaries := daily_summaries st @ [s]\<rparr>)"
      "summary_city s = c" "summary_date s = strftime pf d"
      "avg_temp s = series_mean (map temperature rows)"
      "max_temp s = series_max (map temperature rows)"
      "min_temp s = series_min (map temperature rows)"
      "series_mode (map main_condition rows)
         = dominant_condition s # tl (series_mode (map main_condition rows))"
    using calculate_nonempty [OF q dfne] unfolding t l by blast
  have ne: "map temperature rows \<noteq> []" using assms(2) by simp
  have avg: "avg_temp s = sum_list (map temperature rows) / real (length rows)"
    by (simp add: s(4) series_mean_def)
  have mx: "max_temp s = Max (temperature ` set rows)"
    and mn: "min_temp s = Min (temperature ` set rows)"
    using series_max_Max [OF ne] series_min_Min [OF ne] by (simp_all add: s(5,6))
  have dom: "dominant_condition s \<in> set (map main_condition rows)"
      "count_list (map main_condition rows) (dominant_condition s)
         = top_count (map main_condition rows)"
    using series_mode_first(1,2) [OF s(7)] by blast+
  have dom1: "dominant_condition s \<in> main_condition ` set rows"
    using dom(1) by simp
  have most: "\<forall>l. count_list (map main_condition rows) l
                 \<le> count_list (map main_condition rows) (dominant_condition s)"
    using dom(2) by (simp add: count_le_top)
  have ex: "\<bar>avg_temp s - 27.67\<bar> \<le> 0.01 \<and> max_temp s = 30 \<and> min_temp s = 25
          \<and> dominant_condition s = ''Clear''"
    if t: "mset (map temperature rows) = {#25, 30, 28#}"
      and l: "mset (map main_condition rows) = {#''Clear'', ''Clear'', ''Clouds''#}"
  proof -
    have "avg_temp s = 83 / 3" "max_temp s = 30" "min_temp s = 25"
      using example_mean [OF t] example_max_min [OF t] by (simp_all add: s(4,5,6))
    moreover have "dominant_condition s = ''Clear''"
      using example_mode [OF l] s(7) by (metis list.inject)
    ultimately show ?thesis by simp
  qed
  from s(1,2,3) avg mx mn dom1 most ex show ?thesis by blast
qed

theorem daily_summary_statistics_witness:
  "filter (\<lambda>r. city r = ''Delhi'' \<and> day_start utc example_day \<le> timestamp r
                \<and> timestamp r \<le> day_end utc example_day) (weather_data mixed_store)
     = [\<lparr>city = ''Delhi'', temperature = 25.0, feels_like = 26.0,
          main_condition = ''Clear'', timestamp = 1728000000\<rparr>,
        \<lparr>city = ''Delhi'', temperature = 30.0, feels_like = 32.0,
          main_condition = ''Clear'', timestamp = 1728043200\<rparr>,
        \<lparr>city = ''Delhi'', temperature = 28.0, feels_like = 29.0,
          main_condition = ''Clouds'', timestamp = 1728086399\<rparr>]
   \<and> length (weather_data mixed_store) = 9
   \<and> (\<exists>s. calculate_daily_summary utc ''Delhi'' example_day mixed_store
             = Returned (Some s) (mixed_store\<lparr>daily_summaries := [s]\<rparr>)
          \<and> summary_city s = ''Delhi''
          \<and> avg_temp s = 83 / 3 \<and> max_temp s = 30 \<and> min_temp s = 25
          \<and> dominant_condition s = ''Clear'')"
proof -
  let ?rows = "[\<lparr>city = ''Delhi'', temperature = 25.0, feels_like = 26.0,
          main_condition = ''Clear'', timestamp = 1728000000\<rparr>,
        \<lparr>city = ''Delhi'', temperature = 30.0, feels_like = 32.0,
          main_condition = ''Clear'', timestamp = 1728043200\<rparr>,
        \<lparr>city = ''Delhi'', temperature = 28.0, feels_like = 29.0,
          main_condition = ''Clouds'', timestamp = 1728086399\<rparr>]"
  have q: "?rows = filter (\<lambda>r. city r = ''Delhi'' \<and> day_start utc example_day \<le> timestamp r
                \<and> timestamp r \<le> day_end utc example_day) (weather_data mixed_store)"
    by (simp add: mixed_store_def init_def utc_def example_day_def)
  have ne: "?rows \<noteq> []" by simp
  have n: "length (weather_data mixed_store) = 9"
    by (simp add: mixed_store_def)
  have e: "daily_summaries mixed_store = []"
    by (simp add: mixed_store_def init_def)
  have t: "mset (map temperature ?rows) = {#25, 30, 28#}"
    and l: "mset (map main_condition ?rows) = {#''Clear'', ''Clear'', ''Clouds''#}"
    by simp_all
  obtain s where s: "calculate_daily_summary utc ''Delhi'' example_day mixed_store
             = Returned (Some s) (mixed_store\<lparr>daily_summaries := daily_summaries mixed_store @ [s]\<rparr>)"
      "summary_city s = ''Delhi''"
      "avg_temp s = sum_list (map temperature ?rows) / real (length ?rows)"
      "max_temp s = Max (temperature ` set ?rows)"
      "min_temp s = Min (temperature ` set ?rows)"
      "mset (map temperature ?rows) = {#25, 30, 28#}
          \<and> mset (map main_condition ?rows) = {#''Clear'', ''Clear'', ''Clouds''#} \<longrightarrow>
            \<bar>avg_temp s - 27.67\<bar> \<le> 0.01 \<and> max_temp s = 30 \<and> min_temp s = 25
          \<and> dominant_condition s = ''Clear''"
    using daily_summary_statistics [OF q ne] by blast
  have d: "dominant_condition s = ''Clear''"
    using s(6) t l by blast
  have a: "avg_temp s = 83 / 3" "max_temp s = 30" "min_temp s = 25"
    using s(3,4,5) by simp_all
  show ?thesis
    using q [symmetric] n s(1,2) d a by (simp only: e append_Nil) blast
qed

text \<open>
  Claim C5. When no stored reading of the city has its timestamp within the bounds of
  the day, \<open>calculate_daily_summary\<close> returns \<open>None\<close>: it does not raise, and it leaves
  the store, with its table of summaries, as it was.
\<close>

theorem no_data_no_summary:
  assumes "\<forall>r \<in> set (weather_data st).
             city r = c \<longrightarrow> timestamp r < day_start pf d \<or> day_end pf d < timestamp r"
  shows "calculate_daily_summary pf c d st = Returned None st
       \<and> \<not> raised (calculate_daily_summary pf c d st)
       \<and> daily_summaries (final (calculate_daily_summary pf c d st)) = daily_summaries st"
proof -
  have "filter (\<lambda>r. city r = c \<and> day_start pf d \<le> timestamp r \<and> timestamp r \<le> day_end pf d)
          (weather_data st) = []"
    using assms by (auto simp add: filter_empty_conv)
  then have "read_sql_query st c (day_start pf d) (day_end pf d) = []"
    by (simp add: read_sql_query_def)
  then show ?thesis by (simp add: calculate_empty)
qed

theorem no_data_no_summary_witness:
  "calculate_daily_summary utc ''Mumbai'' example_day stored_day = Returned None stored_day
   \<and> calculate_daily_summary utc ''Delhi'' (example_day + 1) stored_day = Returned None stored_day
   \<and> daily_summaries (final (calculate_daily_summary utc ''Delhi'' (example_day + 1) stored_day))
       = daily_summaries stored_day"
proof -
  have a: "\<forall>r \<in> set (weather_data stored_day).
             city r = ''Mumbai'' \<longrightarrow>
               timestamp r < day_start utc example_day \<or> day_end utc example_day < timestamp r"
    by (simp add: stored_day_def init_def)
  have b: "\<forall>r \<in> set (weather_data stored_day).
             city r = ''Delhi'' \<longrightarrow>
               timestamp r < day_start utc (example_day + 1)
               \<or> day_end utc (example_day + 1) < timestamp r"
    by (simp add: stored_day_def init_def utc_def example_day_def)
  show ?thesis
    using no_data_no_summary [OF a] no_data_no_summary [OF b] by simp
qed

text \<open>
  Claim C10. When the query finds readings, the labels that \<open>Series.mode\<close> yields are
  those that occur most often, in ascending order, and the dominant condition of the
  summary is the first of them: among the labels that occur most often it is the
  smallest in the lexicographic order of their characters, compared by code.
\<close>

theorem dominant_condition_tie_break:
  assumes "read_sql_query st c (day_start pf d) (day_end pf d) = df" and "df \<noteq> []"
  shows "\<exists>s. calculate_daily_summary pf c d st
                = Returned (Some s) (st\<lparr>daily_summaries := daily_summaries st @ [s]\<rparr>)
     \<and> sorted (series_mode (map snd df))
     \<and> set (series_mode (map snd df))
         = {l \<in> set (map snd df). \<forall>l'. count_list (map snd df) l' \<le> count_list (map snd df) l}
     \<and> dominant_condition s = hd (series_mode (map snd df))
     \<and> (\<forall>l' . count_list (map snd df) l' \<le> count_list (map snd df) (dominant_condition s))
     \<and> (\<forall>l \<in> set (map snd df).
           (\<forall>l'. count_list (map snd df) l' \<le> count_list (map snd df) l) \<longrightarrow>
             dominant_condition s = l
           \<or> (dominant_condition s, l) \<in> lexord {(a, b). of_char a < (of_char b :: nat)})"
proof -
  obtain s where s: "calculate_daily_summary pf c d st
               = Returned (Some s) (st\<lparr>daily_summaries := daily_summaries st @ [s]\<rparr>)"
      "series_mode (map snd df) = dominant_condition s # tl (series_mode (map snd df))"
    using calculate_nonempty [OF assms] by blast
  have ne: "map snd df \<noteq> []" using assms(2) by simp
  have modes: "set (series_mode (map snd df))
         = {l \<in> set (map snd df). \<forall>l'. count_list (map snd df) l' \<le> count_list (map snd df) l}"
    using top_iff_most_frequent [OF ne] by (simp add: set_series_mode)
  have first: "dominant_condition s = hd (series_mode (map snd df))"
    using s(2) by (metis list.sel(1))
  have top: "count_list (map snd df) (dominant_condition s) = top_count (map snd df)"
    using series_mode_first(2) [OF s(2)] .
  have most: "\<forall>l'. count_list (map snd df) l' \<le> count_list (map snd df) (dominant_condition s)"
    using top by (simp add: count_le_top)
  have least: "\<forall>l \<in> set (map snd df).
           (\<forall>l'. count_list (map snd df) l' \<le> count_list (map snd df) l) \<longrightarrow>
             dominant_condition s = l
           \<or> (dominant_condition s, l) \<in> lexord {(a, b). of_char a < (of_char b :: nat)}"
    using series_mode_first(3) [OF s(2)] top_iff_most_frequent [OF ne]
    by (simp add: string_le_lexord)
  from s(1) series_mode_sorted [of "map snd df"] modes first most least
  show ?thesis by blast
qed

theorem dominant_condition_tie_break_witness:
  "read_sql_query tied_day ''Delhi'' (day_start utc example_day) (day_end utc example_day)
     = [(25, ''Rain''), (30, ''Clear''), (28, ''Clouds''), (27, ''Clear''), (26, ''Rain'')]
   \<and> count_list [''Rain'', ''Clear'', ''Clouds'', ''Clear'', ''Rain''] ''Rain''
       = count_list [''Rain'', ''Clear'', ''Clouds'', ''Clear'', ''Rain''] ''Clear''
   \<and> series_mode [''Rain'', ''Clear'', ''Clouds'', ''Clear'', ''Rain''] = [''Clear'', ''Rain'']
   \<and> (\<exists>s. calculate_daily_summary utc ''Delhi'' example_day tied_day
             = Returned (Some s) (tied_day\<lparr>daily_summaries := daily_summaries tied_day @ [s]\<rparr>)
          \<and> dominant_condition s = ''Clear'')"
proof -
  let ?df = "[(25::real, ''Rain''), (30, ''Clear''), (28, ''Clouds''), (27, ''Clear''),
              (26, ''Rain'')]"
  have q: "read_sql_query tied_day ''Delhi'' (day_start utc example_day) (day_end utc example_day)
     = ?df"
    by (simp add: read_sql_query_def tied_day_def init_def utc_def example_day_def)
  have ne: "?df \<noteq> []" by simp
  have m: "series_mode (map snd ?df) = [''Clear'', ''Rain'']"
    by (simp add: series_mode_def)
  have t: "count_list [''Rain'', ''Clear'', ''Clouds'', ''Clear'', ''Rain''] ''Rain''
       = count_list [''Rain'', ''Clear'', ''Clouds'', ''Clear'', ''Rain''] ''Clear''"
    by simp
  obtain s where s: "calculate_daily_summary utc ''Delhi'' example_day tied_day
             = Returned (Some s) (tied_day\<lparr>daily_summaries := daily_summaries tied_day @ [s]\<rparr>)"
      "dominant_condition s = hd (series_mode (map snd ?df))"
    using dominant_condition_tie_break [OF q ne] by blast
  have "dominant_condition s = ''Clear''"
    using s(2) by (simp only: m list.sel)
  then show ?thesis using q t m s(1) by auto
qed

subsection \<open>Repeated calls\<close>

lemma calculate_effect:
  "\<exists>r. calculate_daily_summary pf c d st
     = Returned r (st\<lparr>daily_summaries := daily_summaries st @ rows_written pf c d st\<rparr>)"
proof (cases "read_sql_query st c (day_start pf d) (day_end pf d) = []")
  case True
  then show ?thesis by (simp add: rows_written_def calculate_empty)
next
  case False
  then obtain s where "calculate_daily_summary pf c d st
      = Returned (Some s) (st\<lparr>daily_summaries := daily_summaries st @ [s]\<rparr>)"
    using calculate_nonempty [OF refl, of st c pf d] by blast
  then show ?thesis by (simp add: rows_written_def)
qed

lemma read_sql_query_cong:
  "weather_data a = weather_data b \<Longrightarrow> read_sql_query a = read_sql_query b"
  by (simp add: read_sql_query_def fun_eq_iff)

lemma rows_written_cong:
  assumes "weather_data a = weather_data b"
  shows "rows_written pf c d a = rows_written pf c d b"
proof -
  have q: "read_sql_query a = read_sql_query b"
    using assms by (rule read_sql_query_cong)
  show ?thesis
    by (simp add: rows_written_def calculate_daily_summary_def Let_def q
        split: list.split)
qed

lemma summary_loop_effect:
  "summary_loop pf cs d st =
     Returned () (st\<lparr>daily_summaries :=
        daily_summaries st @ concat (map (\<lambda>c. rows_written pf c d st) cs)\<rparr>)"
proof (induction cs arbitrary: st)
  case Nil
  then show ?case by simp
next
  case (Cons c cs)
  obtain r where r: "calculate_daily_summary pf c d st
      = Returned r (st\<lparr>daily_summaries := daily_summaries st @ rows_written pf c d st\<rparr>)"
    using calculate_effect by blast
  have "rows_written pf c' d (st\<lparr>daily_summaries := ds\<rparr>) = rows_written pf c' d st" for c' ds
    by (rule rows_written_cong) simp
  then show ?case
    using r by (simp add: Cons.IH)
qed

lemma rows_written_nonempty:
  assumes "read_sql_query st c (day_start pf d) (day_end pf d) \<noteq> []"
  shows "\<exists>s. rows_written pf c d st = [s]
           \<and> calculate_daily_summary pf c d st
               = Returned (Some s) (st\<lparr>daily_summaries := daily_summaries st @ [s]\<rparr>)"
  using calculate_nonempty [OF refl assms] by (auto simp add: rows_written_def)

lemma concat_replicate_single: "concat (map (\<lambda>c. [s]) (replicate n c)) = replicate n s"
  by (induction n) simp_all

text \<open>
  Claim C7. When the query finds readings, one call of \<open>calculate_daily_summary\<close>
  appends one row to the summaries already stored, whatever they are, and \<open>n\<close> calls in a
  row for the same city and date, as the loop of \<open>run\<close> makes for a city listed \<open>n\<close>
  times, append \<open>n\<close> copies of that row: the call is not idempotent.
\<close>

theorem summary_not_idempotent:
  assumes "read_sql_query st c (day_start pf d) (day_end pf d) \<noteq> []"
  shows "\<exists>s. calculate_daily_summary pf c d st
               = Returned (Some s) (st\<lparr>daily_summaries := daily_summaries st @ [s]\<rparr>)
           \<and> summary_loop pf (replicate n c) d st
               = Returned () (st\<lparr>daily_summaries := daily_summaries st @ replicate n s\<rparr>)"
proof -
  obtain s where s: "rows_written pf c d st = [s]"
    "calculate_daily_summary pf c d st
       = Returned (Some s) (st\<lparr>daily_summaries := daily_summaries st @ [s]\<rparr>)"
    using rows_written_nonempty [OF assms] by blast
  have "summary_loop pf (replicate n c) d st
          = Returned () (st\<lparr>daily_summaries := daily_summaries st @ replicate n s\<rparr>)"
    by (simp add: summary_loop_effect s(1) concat_replicate_single)
  with s(2) show ?thesis by blast
qed

theorem summary_not_idempotent_witness:
  "read_sql_query stored_day ''Delhi'' (day_start utc example_day) (day_end utc example_day) \<noteq> []
   \<and> (\<exists>s. calculate_daily_summary utc ''Delhi'' example_day stored_day
             = Returned (Some s) (stored_day\<lparr>daily_summaries := [s]\<rparr>)
          \<and> summary_loop utc [''Delhi'', ''Delhi'', ''Delhi''] example_day stored_day
             = Returned () (stored_day\<lparr>daily_summaries := [s, s, s]\<rparr>))"
proof -
  have q: "read_sql_query stored_day ''Delhi'' (day_start utc example_day) (day_end utc example_day)
             \<noteq> []"
    by (simp add: read_sql_query_def stored_day_def init_def utc_def example_day_def)
  have e: "daily_summaries stored_day = []"
    by (simp add: stored_day_def init_def)
  have r: "replicate 3 ''Delhi'' = [''Delhi'', ''Delhi'', ''Delhi'']"
    "replicate 3 s = [s, s, s]" for s :: summary
    by (simp_all add: numeral_3_eq_3)
  show ?thesis
    using q summary_not_idempotent [OF q, of 3] by (simp add: e r)
qed

section \<open>Scheduler loop\<close>

subsection \<open>The loop over the cities\<close>

lemma fetch_loop_step:
  "fetch_loop config pf ((c, response, smtp) # rest) st =
     (case response of
        FetchError e \<Rightarrow>
          fetch_loop config pf rest
            (log_record ERROR (''Error fetching data for '' @ c @ '': '' @ e) st)
      | Payload temp feels main dt \<Rightarrow>
          (case check_temperature_alert config pf smtp
                  \<lparr>city = c, temperature = convert_temperature config temp,
                    feels_like = convert_temperature config feels,
                    main_condition = main, timestamp = dt\<rparr>
                  (store_weather_data
                     (Some \<lparr>city = c, temperature = convert_temperature config temp,
                            feels_like = convert_temperature config feels,
                            main_condition = main, timestamp = dt\<rparr>) st) of
             Returned u st2 \<Rightarrow> fetch_loop config pf rest st2
           | Raised e st2 \<Rightarrow> Raised e st2))"
  by (simp add: get_weather_data_def split: api_result.split)

lemma fetch_loop_append:
  "fetch_loop config pf (xs @ ys) st =
     (case fetch_loop config pf xs st of
        Returned u st1 \<Rightarrow> fetch_loop config pf ys st1
      | Raised e st1 \<Rightarrow> Raised e st1)"
proof (induction xs arbitrary: st)
  case Nil
  then show ?case by simp
next
  case (Cons x xs)
  obtain c response smtp where x: "x = (c, response, smtp)" by (cases x)
  show ?case
    by (simp add: x Cons.IH split: prod.split option.split outcome.split)
qed

lemma fetch_loop_returns:
  assumes "temp_unit config \<noteq> []"
  shows "\<exists>st1. fetch_loop config pf steps st = Returned () st1"
proof (induction steps arbitrary: st)
  case Nil
  then show ?case by simp
next
  case (Cons x steps)
  obtain c response smtp where x: "x = (c, response, smtp)" by (cases x)
  show ?case
  proof (cases response)
    case (FetchError e)
    show ?thesis
      unfolding x fetch_loop_step FetchError api_result.case by (rule Cons.IH)
  next
    case (Payload temp feels main dt)
    define data where "data = \<lparr>city = c, temperature = convert_temperature config temp,
                    feels_like = convert_temperature config feels,
                    main_condition = main, timestamp = dt\<rparr>"
    define o1 where
      "o1 = check_temperature_alert config pf smtp data (store_weather_data (Some data) st)"
    have f: "fetch_loop config pf (x # steps) st =
        (case o1 of Returned u st2 \<Rightarrow> fetch_loop config pf steps st2 | Raised e st2 \<Rightarrow> Raised e st2)"
      unfolding x fetch_loop_step Payload api_result.case o1_def data_def ..
    have "\<not> raised o1" unfolding o1_def using assms by (simp add: check_raised)
    then obtain u s1 where "o1 = Returned u s1" by (cases o1) auto
    then show ?thesis using Cons.IH [of s1] by (simp add: f)
  qed
qed

lemma fetch_loop_logger_grows:
  "set (logger st) \<subseteq> set (logger (final (fetch_loop config pf steps st)))"
proof (induction steps arbitrary: st)
  case Nil
  then show ?case by simp
next
  case (Cons x steps)
  obtain c response smtp where x: "x = (c, response, smtp)" by (cases x)
  show ?case
  proof (cases response)
    case (FetchError e)
    show ?thesis
      unfolding x fetch_loop_step FetchError api_result.case
      using Cons.IH [of "log_record ERROR (''Error fetching data for '' @ c @ '': '' @ e) st"]
      by auto
  next
    case (Payload temp feels main dt)
    define data where "data = \<lparr>city = c, temperature = convert_temperature config temp,
                    feels_like = convert_temperature config feels,
                    main_condition = main, timestamp = dt\<rparr>"
    define o1 where
      "o1 = check_temperature_alert config pf smtp data (store_weather_data (Some data) st)"
    have g: "set (logger st) \<subseteq> set (logger (final o1))"
      unfolding o1_def
      using check_logger_grows [of "store_weather_data (Some data) st" config pf smtp data]
      by (simp add: store_weather_data_def)
    have f: "fetch_loop config pf (x # steps) st =
        (case o1 of Returned u st2 \<Rightarrow> fetch_loop config pf steps st2 | Raised e st2 \<Rightarrow> Raised e st2)"
      unfolding x fetch_loop_step Payload api_result.case o1_def data_def ..
    show ?thesis
    proof (cases o1)
      case (Returned u s1)
      then show ?thesis using g Cons.IH [of s1] by (auto simp add: f)
    next
      case (Raised er s1)
      then show ?thesis using g by (simp add: f)
    qed
  qed
qed

subsection \<open>States that differ in the log only\<close>

lemma fires_cong:
  "alert_counter a = alert_counter b \<Longrightarrow> fires config data a = fires config data b"
  by (simp add: fires_def)

lemma check_effects_cong:
  assumes "effects a = effects b"
  shows "effects (final (check_temperature_alert config pf smtp data a))
           = effects (final (check_temperature_alert config pf smtp data b))"
    and "raised (check_temperature_alert config pf smtp data a)
           = raised (check_temperature_alert config pf smtp data b)"
proof -
  have ac: "alert_counter a = alert_counter b" using assms by (simp add: effects_def)
  show "effects (final (check_temperature_alert config pf smtp data a))
           = effects (final (check_temperature_alert config pf smtp data b))"
    using assms fires_cong [OF ac, of config data]
    by (simp add: effects_def check_alert_counter check_alerts check_outbox)
  show "raised (check_temperature_alert config pf smtp data a)
           = raised (check_temperature_alert config pf smtp data b)"
    by (simp add: check_raised ac)
qed

lemma effects_log_record_ERROR [simp]: "effects (log_record ERROR msg st) = effects st"
  by (simp add: effects_def alerts_log_record)

lemma effects_store:
  "effects a = effects b \<Longrightarrow>
   effects (store_weather_data (Some data) a) = effects (store_weather_data (Some data) b)"
  by (simp add: effects_def store_weather_data_def)

lemma fetch_loop_effects_cong:
  "effects a = effects b \<Longrightarrow>
   effects (final (fetch_loop config pf steps a)) = effects (final (fetch_loop config pf steps b))
   \<and> raised (fetch_loop config pf steps a) = raised (fetch_loop config pf steps b)"
proof (induction steps arbitrary: a b)
  case Nil
  then show ?case by simp
next
  case (Cons x steps)
  obtain c response smtp where x: "x = (c, response, smtp)" by (cases x)
  show ?case
  proof (cases response)
    case (FetchError e)
    have "effects (log_record ERROR (''Error fetching data for '' @ c @ '': '' @ e) a)
        = effects (log_record ERROR (''Error fetching data for '' @ c @ '': '' @ e) b)"
      using Cons.prems by simp
    then show ?thesis
      unfolding x fetch_loop_step FetchError api_result.case by (rule Cons.IH)
  next
    case (Payload temp feels main dt)
    define data where "data = \<lparr>city = c, temperature = convert_temperature config temp,
                    feels_like = convert_temperature config feels,
                    main_condition = main, timestamp = dt\<rparr>"
    define oa where
      "oa = check_temperature_alert config pf smtp data (store_weather_data (Some data) a)"
    define ob where
      "ob = check_temperature_alert config pf smtp data (store_weather_data (Some data) b)"
    have e: "effects (final oa) = effects (final ob)" and r: "raised oa = raised ob"
      unfolding oa_def ob_def
      using check_effects_cong [OF effects_store [OF Cons.prems]] by blast+
    have fa: "fetch_loop config pf (x # steps) a =
        (case oa of Returned u st2 \<Rightarrow> fetch_loop config pf steps st2 | Raised e st2 \<Rightarrow> Raised e st2)"
      unfolding x fetch_loop_step Payload api_result.case oa_def data_def ..
    have fb: "fetch_loop config pf (x # steps) b =
        (case ob of Returned u st2 \<Rightarrow> fetch_loop config pf steps st2 | Raised e st2 \<Rightarrow> Raised e st2)"
      unfolding x fetch_loop_step Payload api_result.case ob_def data_def ..
    show ?thesis
    proof (cases oa)
      case (Returned u sa)
      then obtain v sb where sb: "ob = Returned v sb" using r by (cases ob) auto
      have "effects sa = effects sb" using e Returned sb by simp
      then show ?thesis using Cons.IH [of sa sb] by (simp add: fa fb Returned sb)
    next
      case (Raised er sa)
      then obtain er' sb where sb: "ob = Raised er' sb" using r by (cases ob) auto
      then show ?thesis using e Raised by (simp add: fa fb)
    qed
  qed
qed

lemma fetch_loop_skip_failed:
  "effects (final (fetch_loop config pf (xs @ (c, FetchError e, smtp) # ys) st))
     = effects (final (fetch_loop config pf (xs @ ys) st))
   \<and> raised (fetch_loop config pf (xs @ (c, FetchError e, smtp) # ys) st)
     = raised (fetch_loop config pf (xs @ ys) st)
   \<and> (raised (fetch_loop config pf (xs @ (c, FetchError e, smtp) # ys) st)
      \<or> (ERROR, ''Error fetching data for '' @ c @ '': '' @ e)
          \<in> set (logger (final (fetch_loop config pf (xs @ (c, FetchError e, smtp) # ys) st))))"
proof (cases "fetch_loop config pf xs st")
  case (Returned u st1)
  let ?msg = "''Error fetching data for '' @ c @ '': '' @ e"
  have c: "effects (final (fetch_loop config pf ys (log_record ERROR ?msg st1)))
             = effects (final (fetch_loop config pf ys st1))
           \<and> raised (fetch_loop config pf ys (log_record ERROR ?msg st1))
             = raised (fetch_loop config pf ys st1)"
    by (rule fetch_loop_effects_cong) simp
  have full: "fetch_loop config pf (xs @ (c, FetchError e, smtp) # ys) st
               = fetch_loop config pf ys (log_record ERROR ?msg st1)"
    by (simp add: fetch_loop_append [of config pf xs] Returned get_weather_data_def)
  have rest: "fetch_loop config pf (xs @ ys) st = fetch_loop config pf ys st1"
    by (simp add: fetch_loop_append [of config pf xs] Returned)
  have "(ERROR, ?msg) \<in> set (logger (final (fetch_loop config pf ys (log_record ERROR ?msg st1))))"
    using fetch_loop_logger_grows [of "log_record ERROR ?msg st1" config pf ys] by auto
  then show ?thesis using c by (simp add: full rest)
next
  case (Raised er st1)
  then show ?thesis by (simp add: fetch_loop_append [of config pf xs])
qed

subsection \<open>The list of cities plays no part in a step\<close>

lemma convert_cities_irrelevant:
  "convert_temperature (config\<lparr>cities := cs\<rparr>) = convert_temperature config"
  by (simp add: convert_temperature_def fun_eq_iff)

lemma email_enabled_cities_irrelevant:
  "email_enabled (config\<lparr>cities := cs\<rparr>) = email_enabled config"
  by (simp add: email_enabled_def)

lemma send_email_cities_irrelevant:
  "send_email_alert (config\<lparr>cities := cs\<rparr>) = send_email_alert config"
  by (simp add: send_email_alert_def email_enabled_def fun_eq_iff)

lemma trigger_alert_cities_irrelevant:
  "trigger_alert (config\<lparr>cities := cs\<rparr>) = trigger_alert config"
  by (simp add: trigger_alert_def send_email_cities_irrelevant email_enabled_cities_irrelevant
      fun_eq_iff Let_def)

lemma check_cities_irrelevant:
  "check_temperature_alert (config\<lparr>cities := cs\<rparr>) = check_temperature_alert config"
  by (simp add: check_temperature_alert_def trigger_alert_cities_irrelevant fun_eq_iff Let_def
      split: list.split)

lemma get_weather_data_cities_irrelevant:
  "get_weather_data (config\<lparr>cities := cs\<rparr>) = get_weather_data config"
  by (simp add: get_weather_data_def convert_cities_irrelevant fun_eq_iff split: api_result.split)

lemma fetch_loop_cities_irrelevant:
  "fetch_loop (config\<lparr>cities := cs\<rparr>) pf steps st = fetch_loop config pf steps st"
proof (induction steps arbitrary: st)
  case Nil
  then show ?case by simp
next
  case (Cons x steps)
  obtain c response smtp where x: "x = (c, response, smtp)" by (cases x)
  show ?case
    by (simp add: x Cons.IH check_cities_irrelevant get_weather_data_cities_irrelevant
        split: prod.split option.split outcome.split)
qed

subsection \<open>One cycle\<close>

lemma run_cycle_fetch:
  "raised (run_cycle config pf env st)
     = raised (fetch_loop config pf (zip (cities config) (world env)) st)"
  "alert_counter (final (run_cycle config pf env st))
     = alert_counter (final (fetch_loop config pf (zip (cities config) (world env)) st))"
  "weather_data (final (run_cycle config pf env st))
     = weather_data (final (fetch_loop config pf (zip (cities config) (world env)) st))"
  "outbox (final (run_cycle config pf env st))
     = outbox (final (fetch_loop config pf (zip (cities config) (world env)) st))"
  "alerts (final (run_cycle config pf env st))
     = alerts (final (fetch_loop config pf (zip (cities config) (world env)) st))"
  "logger (final (run_cycle config pf env st))
     = logger (final (fetch_loop config pf (zip (cities config) (world env)) st))"
  by (cases "fetch_loop config pf (zip (cities config) (world env)) st";
      simp add: run_cycle_def Let_def summary_loop_effect)+

subsection \<open>What a pass of the loop stores and checks\<close>

lemma fetched_append:
  "fetched config (xs @ ys) = fetched config xs @ fetched config ys"
  by (induction config xs rule: fetched.induct) simp_all

lemma fetched_member:
  "(c, Payload temp feels main dt, smtp) \<in> set steps \<Longrightarrow>
   (\<lparr>city = c, temperature = convert_temperature config temp,
     feels_like = convert_temperature config feels,
     main_condition = main, timestamp = dt\<rparr>, smtp) \<in> set (fetched config steps)"
  by (induction config steps rule: fetched.induct) auto

lemma fetch_loop_weather_data:
  "\<not> raised (fetch_loop config pf steps st) \<Longrightarrow>
   weather_data (final (fetch_loop config pf steps st))
     = weather_data st @ map fst (fetched config steps)"
proof (induction steps arbitrary: st)
  case Nil
  then show ?case by simp
next
  case (Cons x steps)
  obtain c response smtp where x: "x = (c, response, smtp)" by (cases x)
  show ?case
  proof (cases response)
    case (FetchError e)
    let ?st1 = "log_record ERROR (''Error fetching data for '' @ c @ '': '' @ e) st"
    have f: "fetch_loop config pf (x # steps) st = fetch_loop config pf steps ?st1"
      unfolding x fetch_loop_step FetchError api_result.case ..
    have fe: "fetched config (x # steps) = fetched config steps"
      by (simp add: x FetchError)
    have w: "weather_data ?st1 = weather_data st" by simp
    have nr: "\<not> raised (fetch_loop config pf steps ?st1)" using Cons.prems by (simp add: f)
    show ?thesis using Cons.IH [OF nr] by (simp only: f fe w)
  next
    case (Payload temp feels main dt)
    define data where "data = \<lparr>city = c, temperature = convert_temperature config temp,
                    feels_like = convert_temperature config feels,
                    main_condition = main, timestamp = dt\<rparr>"
    define o1 where
      "o1 = check_temperature_alert config pf smtp data (store_weather_data (Some data) st)"
    have f: "fetch_loop config pf (x # steps) st =
        (case o1 of Returned u st2 \<Rightarrow> fetch_loop config pf steps st2 | Raised e st2 \<Rightarrow> Raised e st2)"
      unfolding x fetch_loop_step Payload api_result.case o1_def data_def ..
    have w: "weather_data (final o1) = weather_data st @ [data]"
      unfolding o1_def by (simp add: store_weather_data_def)
    have fe: "fetched config (x # steps) = (data, smtp) # fetched config steps"
      by (simp add: x Payload data_def)
    show ?thesis
    proof (cases o1)
      case (Returned u s1)
      have w1: "weather_data s1 = weather_data st @ [data]"
        using w by (simp add: Returned)
      have "\<not> raised (fetch_loop config pf steps s1)" using Cons.prems by (simp add: f Returned)
      then show ?thesis
        using Cons.IH [of s1] by (simp add: f Returned fe w1)
    next
      case (Raised er s1)
      then show ?thesis using Cons.prems by (simp add: f)
    qed
  qed
qed

lemma check_alerting_cong:
  assumes "alerting a = alerting b"
  shows "alerting (final (check_temperature_alert config pf smtp data a))
           = alerting (final (check_temperature_alert config pf smtp data b))"
    and "raised (check_temperature_alert config pf smtp data a)
           = raised (check_temperature_alert config pf smtp data b)"
proof -
  have ac: "alert_counter a = alert_counter b" using assms by (simp add: alerting_def)
  show "alerting (final (check_temperature_alert config pf smtp data a))
           = alerting (final (check_temperature_alert config pf smtp data b))"
    using assms fires_cong [OF ac, of config data]
    by (simp add: alerting_def check_alert_counter check_alerts check_outbox)
  show "raised (check_temperature_alert config pf smtp data a)
           = raised (check_temperature_alert config pf smtp data b)"
    by (simp add: check_raised ac)
qed

lemma alerting_log_record_ERROR [simp]: "alerting (log_record ERROR msg st) = alerting st"
  by (simp add: alerting_def alerts_log_record)

lemma alerting_store [simp]:
  "alerting (store_weather_data (Some data) st) = alerting st"
  by (simp add: alerting_def store_weather_data_def)

lemma fetch_loop_as_feed:
  "alerting a = alerting b \<Longrightarrow>
   alerting (final (fetch_loop config pf steps a))
     = alerting (final (feed config pf (fetched config steps) b))
   \<and> raised (fetch_loop config pf steps a) = raised (feed config pf (fetched config steps) b)"
proof (induction steps arbitrary: a b)
  case Nil
  then show ?case by simp
next
  case (Cons x steps)
  obtain c response smtp where x: "x = (c, response, smtp)" by (cases x)
  show ?case
  proof (cases response)
    case (FetchError e)
    have "alerting (log_record ERROR (''Error fetching data for '' @ c @ '': '' @ e) a)
        = alerting b"
      using Cons.prems by simp
    then show ?thesis
      unfolding x fetch_loop_step FetchError api_result.case fetched.simps by (rule Cons.IH)
  next
    case (Payload temp feels main dt)
    define data where "data = \<lparr>city = c, temperature = convert_temperature config temp,
                    feels_like = convert_temperature config feels,
                    main_condition = main, timestamp = dt\<rparr>"
    define oa where
      "oa = check_temperature_alert config pf smtp data (store_weather_data (Some data) a)"
    define ob where
      "ob = check_temperature_alert config pf smtp data b"
    have "alerting (store_weather_data (Some data) a) = alerting b"
      using Cons.prems by simp
    then have e: "alerting (final oa) = alerting (final ob)" and r: "raised oa = raised ob"
      unfolding oa_def ob_def using check_alerting_cong by blast+
    have fa: "fetch_loop config pf (x # steps) a =
        (case oa of Returned u st2 \<Rightarrow> fetch_loop config pf steps st2 | Raised e st2 \<Rightarrow> Raised e st2)"
      unfolding x fetch_loop_step Payload api_result.case oa_def data_def ..
    have fb: "feed config pf (fetched config (x # steps)) b =
        (case ob of Returned u st2 \<Rightarrow> feed config pf (fetched config steps) st2
                  | Raised e st2 \<Rightarrow> Raised e st2)"
      unfolding x Payload fetched.simps feed.simps ob_def data_def ..
    show ?thesis
    proof (cases oa)
      case (Returned u sa)
      then obtain v sb where sb: "ob = Returned v sb" using r by (cases ob) auto
      have "alerting sa = alerting sb" using e Returned sb by simp
      then show ?thesis using Cons.IH [of sa sb] by (simp add: fa fb Returned sb)
    next
      case (Raised er sa)
      then obtain er' sb where sb: "ob = Raised er' sb" using r by (cases ob) auto
      then show ?thesis using e Raised by (simp add: fa fb)
    qed
  qed
qed

lemma upper_c: "upper (CHR ''c'') = CHR ''C''"
  by code_simp

text \<open>
  Claim C6. Take a cycle in which the request for one of the configured cities fails,
  every city having an outcome. Unless an exception has ended the cycle, which a unit
  name that is not empty excludes, the failure is in the log at level ERROR and the
  readings stored are those stored before followed by the reading of every other city
  whose request succeeds, in the order of the cities. The counters, the alerts and the
  messages sent are those that \<open>check_temperature_alert\<close> leaves when called on these
  readings one after another, and the cycle raises when one of these calls does. So the
  cycle ends the same way and leaves the same readings, counters, alerts and messages as
  the cycle in which the failing city and its outcome are left out.
\<close>

theorem fetch_failure_isolated:
  assumes "cities config = xs @ c # ys"
    and "world env = wx @ (FetchError e, smtp) # wy"
    and "length wx = length xs"
    and "length wy = length ys"
  shows "let full = run_cycle config pf env st;
             rest = run_cycle (config\<lparr>cities := xs @ ys\<rparr>) pf (env\<lparr>world := wx @ wy\<rparr>) st;
             others = fetched config (zip (xs @ ys) (wx @ wy));
             checked = feed config pf others st
         in map fst (zip (xs @ ys) (wx @ wy)) = xs @ ys
          \<and> raised full = raised rest
          \<and> weather_data (final full) = weather_data (final rest)
          \<and> alert_counter (final full) = alert_counter (final rest)
          \<and> alerts (final full) = alerts (final rest)
          \<and> outbox (final full) = outbox (final rest)
          \<and> (raised full
              \<or> (ERROR, ''Error fetching data for '' @ c @ '': '' @ e) \<in> set (logger (final full)))
          \<and> (temp_unit config \<noteq> [] \<longrightarrow> \<not> raised full)
          \<and> (raised full \<or> weather_data (final full) = weather_data st @ map fst others)
          \<and> (\<forall>c' temp feels main dt smtp'.
                (c', Payload temp feels main dt, smtp') \<in> set (zip (xs @ ys) (wx @ wy)) \<longrightarrow>
                raised full
                \<or> \<lparr>city = c', temperature = convert_temperature config temp,
                    feels_like = convert_temperature config feels,
                    main_condition = main, timestamp = dt\<rparr> \<in> set (weather_data (final full)))
          \<and> raised full = raised checked
          \<and> alert_counter (final full) = alert_counter (final checked)
          \<and> alerts (final full) = alerts (final checked)
          \<and> outbox (final full) = outbox (final checked)"
proof -
  let ?steps = "zip xs wx @ (c, FetchError e, smtp) # zip ys wy"
  let ?full = "fetch_loop config pf ?steps st"
  let ?others = "fetched config (zip (xs @ ys) (wx @ wy))"
  have z1: "zip (cities config) (world env) = ?steps"
    using assms by simp
  have z2: "zip (xs @ ys) (wx @ wy) = zip xs wx @ zip ys wy"
    using assms(3) by simp
  have m: "map fst (zip (xs @ ys) (wx @ wy)) = xs @ ys"
    using assms(3,4) by simp
  have fo: "fetched config ?steps = ?others"
    by (simp add: z2 fetched_append)
  have skip: "raised ?full = raised (fetch_loop config pf (zip xs wx @ zip ys wy) st)"
      "weather_data (final ?full) = weather_data (final (fetch_loop config pf (zip xs wx @ zip ys wy) st))"
      "alert_counter (final ?full) = alert_counter (final (fetch_loop config pf (zip xs wx @ zip ys wy) st))"
      "alerts (final ?full) = alerts (final (fetch_loop config pf (zip xs wx @ zip ys wy) st))"
      "outbox (final ?full) = outbox (final (fetch_loop config pf (zip xs wx @ zip ys wy) st))"
      "raised ?full \<or> (ERROR, ''Error fetching data for '' @ c @ '': '' @ e) \<in> set (logger (final ?full))"
    using fetch_loop_skip_failed [of config pf "zip xs wx" c e smtp "zip ys wy" st]
    by (auto simp add: effects_def)
  have ret: "temp_unit config \<noteq> [] \<longrightarrow> \<not> raised ?full"
    using fetch_loop_returns [of config pf ?steps st] by auto
  have wd: "raised ?full \<or> weather_data (final ?full) = weather_data st @ map fst ?others"
    using fetch_loop_weather_data [of config pf ?steps st] by (auto simp only: fo)
  have each: "raised ?full
                \<or> \<lparr>city = c', temperature = convert_temperature config temp,
                    feels_like = convert_temperature config feels,
                    main_condition = main, timestamp = dt\<rparr> \<in> set (weather_data (final ?full))"
    if "(c', Payload temp feels main dt, smtp') \<in> set (zip (xs @ ys) (wx @ wy))"
    for c' temp feels main dt smtp'
  proof (cases "raised ?full")
    case True
    then show ?thesis by simp
  next
    case False
    then have w: "weather_data (final ?full) = weather_data st @ map fst ?others"
      using wd by simp
    have "(\<lparr>city = c', temperature = convert_temperature config temp,
                    feels_like = convert_temperature config feels,
                    main_condition = main, timestamp = dt\<rparr>, smtp') \<in> set ?others"
      using that by (rule fetched_member)
    then have "\<lparr>city = c', temperature = convert_temperature config temp,
                    feels_like = convert_temperature config feels,
                    main_condition = main, timestamp = dt\<rparr> \<in> set (map fst ?others)"
      by (metis fst_conv image_eqI set_map)
    then show ?thesis by (simp only: w set_append) simp
  qed
  have a: "alerting (final ?full) = alerting (final (feed config pf ?others st))"
      "raised ?full = raised (feed config pf ?others st)"
    using fetch_loop_as_feed [OF refl, where a = st and config = config and pf = pf and steps = "?steps"] by (simp_all only: fo)
  have chk: "alert_counter (final ?full) = alert_counter (final (feed config pf ?others st))"
      "alerts (final ?full) = alerts (final (feed config pf ?others st))"
      "outbox (final ?full) = outbox (final (feed config pf ?others st))"
    using a(1) by (simp_all add: alerting_def)
  have full: "raised (run_cycle config pf env st) = raised ?full"
      "weather_data (final (run_cycle config pf env st)) = weather_data (final ?full)"
      "alert_counter (final (run_cycle config pf env st)) = alert_counter (final ?full)"
      "alerts (final (run_cycle config pf env st)) = alerts (final ?full)"
      "outbox (final (run_cycle config pf env st)) = outbox (final ?full)"
      "logger (final (run_cycle config pf env st)) = logger (final ?full)"
    by (simp_all only: run_cycle_fetch z1)
  let ?r = "run_cycle (config\<lparr>cities := xs @ ys\<rparr>) pf (env\<lparr>world := wx @ wy\<rparr>) st"
  have rest: "raised ?r = raised (fetch_loop config pf (zip xs wx @ zip ys wy) st)"
      "weather_data (final ?r) = weather_data (final (fetch_loop config pf (zip xs wx @ zip ys wy) st))"
      "alert_counter (final ?r) = alert_counter (final (fetch_loop config pf (zip xs wx @ zip ys wy) st))"
      "alerts (final ?r) = alerts (final (fetch_loop config pf (zip xs wx @ zip ys wy) st))"
      "outbox (final ?r) = outbox (final (fetch_loop config pf (zip xs wx @ zip ys wy) st))"
    by (simp_all add: run_cycle_fetch z2 fetch_loop_cities_irrelevant)
  show ?thesis
    unfolding Let_def full rest
    using m skip ret wd each a(2) chk by blast
qed

theorem fetch_failure_isolated_witness:
  "cities three_cities = [''Delhi''] @ ''Mumbai'' # [''Chennai'']
   \<and> world middle_failure
       = [(Payload 310 312 ''Clear'' 1728086400, Sent)] @ (FetchError ''timed out'', Sent)
           # [(Payload 309.15 311.15 ''Haze'' 1728086402, Sent)]
   \<and> \<not> raised (run_cycle three_cities utc middle_failure armed)
   \<and> weather_data (final (run_cycle three_cities utc middle_failure armed))
       = [\<lparr>city = ''Delhi'', temperature = 36.85, feels_like = 38.85,
            main_condition = ''Clear'', timestamp = 1728086400\<rparr>,
          \<lparr>city = ''Chennai'', temperature = 36, feels_like = 38,
            main_condition = ''Haze'', timestamp = 1728086402\<rparr>]
   \<and> alert_counter (final (run_cycle three_cities utc middle_failure armed)) (alert_key ''Delhi'')
       = Some 0
   \<and> alert_counter (final (run_cycle three_cities utc middle_failure armed)) (alert_key ''Mumbai'')
       = None
   \<and> alert_counter (final (run_cycle three_cities utc middle_failure armed)) (alert_key ''Chennai'')
       = Some 1
   \<and> alerts (final (run_cycle three_cities utc middle_failure armed))
       = [''ALERT: High temperature alert for Delhi: '' @ degree @ ''C'']
   \<and> outbox (final (run_cycle three_cities utc middle_failure armed))
       = [''High temperature alert for Delhi: '' @ degree @ ''C'']
   \<and> (ERROR, ''Error fetching data for Mumbai: timed out'')
       \<in> set (logger (final (run_cycle three_cities utc middle_failure armed)))"
proof -
  let ?delhi = "\<lparr>city = ''Delhi'', temperature = 36.85, feels_like = 38.85,
            main_condition = ''Clear'', timestamp = 1728086400\<rparr>"
  let ?chennai = "\<lparr>city = ''Chennai'', temperature = 36, feels_like = 38,
            main_condition = ''Haze'', timestamp = 1728086402\<rparr>"
  have c: "cities three_cities = [''Delhi''] @ ''Mumbai'' # [''Chennai'']"
    by (simp add: three_cities_def config_py_def)
  have w: "world middle_failure
       = [(Payload 310 312 ''Clear'' 1728086400, Sent)] @ (FetchError ''timed out'', Sent)
           # [(Payload 309.15 311.15 ''Haze'' 1728086402, Sent)]"
    by (simp add: middle_failure_def)
  have l: "length [(Payload 310 312 ''Clear'' 1728086400, Sent)] = length [''Delhi'']"
      "length [(Payload 309.15 311.15 ''Haze'' 1728086402, Sent)] = length [''Chennai'']"
    by simp_all
  have u: "temp_unit three_cities \<noteq> []"
    by (simp add: three_cities_def config_py_def)
  have f: "fetched three_cities
             (zip ([''Delhi''] @ [''Chennai''])
                ([(Payload 310 312 ''Clear'' 1728086400, Sent)]
                 @ [(Payload 309.15 311.15 ''Haze'' 1728086402, Sent)]))
           = [(?delhi, Sent), (?chennai, Sent)]"
    by (simp add: three_cities_def config_py_def convert_temperature_def kelvin_to_celsius_def)
  define st1 where "st1 = final (check_temperature_alert three_cities utc Sent ?delhi armed)"
  have s1: "check_temperature_alert three_cities utc Sent ?delhi armed = Returned () st1"
    unfolding st1_def
    by (simp add: check_temperature_alert_def three_cities_def config_py_def armed_def
        get_default_def Let_def)
  define fed where "fed = feed three_cities utc [(?delhi, Sent), (?chennai, Sent)] armed"
  have fd: "\<not> raised fed"
      "alert_counter (final fed) (alert_key ''Delhi'') = Some 0"
      "alert_counter (final fed) (alert_key ''Mumbai'') = None"
      "alert_counter (final fed) (alert_key ''Chennai'') = Some 1"
      "alerts (final fed) = [''ALERT: High temperature alert for Delhi: '' @ degree @ ''C'']"
      "outbox (final fed) = [''High temperature alert for Delhi: '' @ degree @ ''C'']"
    unfolding fed_def
    by (simp_all add: check_temperature_alert_def three_cities_def config_py_def armed_def
        init_def get_default_def Let_def trigger_alert_def send_email_alert_def
        email_enabled_def utc_def alert_key_def upper_c alerts_def log_record_def)
  have wd: "weather_data armed = []"
    by (simp add: armed_def init_def)
  note t = fetch_failure_isolated [OF c w l, of utc armed, unfolded Let_def f, folded fed_def]
  let ?full = "run_cycle three_cities utc middle_failure armed"
  have t1: "\<not> raised ?full"
    using t u by blast
  have t2: "weather_data (final ?full)
              = weather_data armed @ map fst [(?delhi, Sent), (?chennai, Sent)]"
    using t t1 by blast
  have t3: "alert_counter (final ?full) = alert_counter (final fed)"
      "alerts (final ?full) = alerts (final fed)"
      "outbox (final ?full) = outbox (final fed)"
    using t by blast+
  have t4: "(ERROR, ''Error fetching data for Mumbai: timed out'') \<in> set (logger (final ?full))"
    using t t1 by simp
  show ?thesis
    using c w t1 t4 fd by (simp add: t2 t3 wd)
qed

text \<open>
  Claim C9. With a unit name that is not empty the loop over the cities always returns,
  and the cycle then reads the clock once: when its hour and its minute are both 0, the
  cycle goes on as the loop that calls \<open>calculate_daily_summary\<close> once for each
  configured city, in order, for the date before the clock's date, and otherwise it ends
  there. So the rows the cycle adds to the summaries are those that these calls write at
  midnight, and none at any other time; and the seconds of the clock play no part.
\<close>

theorem daily_trigger:
  assumes "temp_unit config \<noteq> []"
  shows "\<exists>st1. fetch_loop config pf (zip (cities config) (world env)) st = Returned () st1
     \<and> run_cycle config pf env st
         = (if hour (clock env) = 0 \<and> minute (clock env) = 0
            then summary_loop pf (cities config) (date_of (clock env) - 1) st1
            else Returned () st1)
     \<and> run_cycle config pf env st
         = Returned () (st1\<lparr>daily_summaries := daily_summaries st1 @
              (if hour (clock env) = 0 \<and> minute (clock env) = 0
               then concat (map (\<lambda>c. rows_written pf c (date_of (clock env) - 1) st1)
                      (cities config))
               else [])\<rparr>)
     \<and> (\<forall>s. run_cycle config pf (env\<lparr>clock := (clock env)\<lparr>second := s\<rparr>\<rparr>) st
              = run_cycle config pf env st)"
proof -
  obtain st1 where f: "fetch_loop config pf (zip (cities config) (world env)) st = Returned () st1"
    using fetch_loop_returns [OF assms] by blast
  have a: "run_cycle config pf env st
         = (if hour (clock env) = 0 \<and> minute (clock env) = 0
            then summary_loop pf (cities config) (date_of (clock env) - 1) st1
            else Returned () st1)"
    by (simp add: run_cycle_def f Let_def)
  have b: "run_cycle config pf env st
         = Returned () (st1\<lparr>daily_summaries := daily_summaries st1 @
              (if hour (clock env) = 0 \<and> minute (clock env) = 0
               then concat (map (\<lambda>c. rows_written pf c (date_of (clock env) - 1) st1)
                      (cities config))
               else [])\<rparr>)"
    by (simp add: a summary_loop_effect)
  have c: "\<forall>s. run_cycle config pf (env\<lparr>clock := (clock env)\<lparr>second := s\<rparr>\<rparr>) st
              = run_cycle config pf env st"
    by (simp add: run_cycle_def f Let_def)
  from f a b c show ?thesis by blast
qed

theorem daily_trigger_witness:
  "temp_unit test_config \<noteq> []
   \<and> hour (clock failing_cycle) = 0 \<and> minute (clock failing_cycle) = 0
   \<and> date_of (clock failing_cycle) - 1 = example_day
   \<and> (\<exists>st1. fetch_loop test_config utc (zip (cities test_config) (world failing_cycle)) stored_day
               = Returned () st1
          \<and> run_cycle test_config utc failing_cycle stored_day
               = summary_loop utc (cities test_config) example_day st1
          \<and> run_cycle test_config utc (failing_cycle\<lparr>clock := (clock failing_cycle)\<lparr>hour := 12\<rparr>\<rparr>)
                 stored_day
               = Returned () st1)"
proof -
  have u: "temp_unit test_config \<noteq> []" by (simp add: test_config_def)
  have t: "hour (clock failing_cycle) = 0" "minute (clock failing_cycle) = 0"
    "date_of (clock failing_cycle) - 1 = example_day"
    by (simp_all add: failing_cycle_def example_day_def)
  let ?noon = "failing_cycle\<lparr>clock := (clock failing_cycle)\<lparr>hour := 12\<rparr>\<rparr>"
  have n: "hour (clock ?noon) = 12" "world ?noon = world failing_cycle"
    by simp_all
  show ?thesis
    using u t n daily_trigger [OF u, of utc failing_cycle stored_day]
      daily_trigger [OF u, of utc ?noon stored_day]
    by auto
qed

end
